theory Spec2Isabelle
  imports Complex_Main "HOL-Library.Word" "HOL-Library.Sublist" "HOL-Library.Monad_Syntax"
begin

section \<open>JavaScript values\<close>

text \<open>
  A JavaScript string is a sequence of UTF-16 code units, and \<open>s.length\<close> counts them.
  String literals of the source are written \<open>str ''...''\<close>. Keys of objects, messages
  of errors and of validation issues are constants of the source and stay HOL strings.
\<close>

type_synonym code_unit = "16 word"
type_synonym js_string = "code_unit list"

definition str :: "string \<Rightarrow> js_string" where
  "str s = map (\<lambda>c. of_char c) s"

text \<open>\<open>xs?.[0]\<close>: the first element of an array, \<open>undefined\<close> when there is none.\<close>

fun nth0 :: "'a list \<Rightarrow> 'a option" where
  "nth0 [] = None"
| "nth0 (x # xs) = Some x"

section \<open>Hypercert retrieval (src/utils/supabase/hypercerts.ts)\<close>

subsection \<open>Responses of the GraphQL endpoint\<close>

text \<open>
  The shape the source reads from the reply of \<open>getHyperboardsByIdQuery\<close>:
  \<open>res.hyperboards?.data?.[0]?.sections?.data?.[0]?.entries\<close>. Every step the source guards
  with \<open>?.\<close> is an option here; \<open>entries\<close> is read without a guard and is a list.
\<close>

record entry =
  entry_id :: js_string

record board_section =
  entries :: "entry list"

record sections_connection =
  sections_data :: "board_section list option"

record hyperboard =
  sections :: "sections_connection option"

record hyperboards_connection =
  hyperboards_data :: "hyperboard list option"

record hyperboards_response =
  hyperboards :: "hyperboards_connection option"

text \<open>
  The reply of \<open>getHypercertsByHypercertIdQuery\<close>, read as
  \<open>hypercert?.hypercerts?.data?.[0]\<close>. A hypercert record \<open>'r\<close> is an opaque object.
\<close>

record 'r hypercerts_connection =
  hypercerts_data :: "'r list option"

record 'r hypercerts_response =
  hypercerts :: "'r hypercerts_connection option"

subsection \<open>Exceptions, promises and the network\<close>

text \<open>
  A thrown value is either the \<open>Error\<close> the source constructs itself or the value \<open>'x\<close> a
  request rejected with.
\<close>

datatype 'x js_error = Error string | Rejected 'x

text \<open>
  A settled promise: how it settled, and a rank \<open>settled_at\<close> that orders the settlements
  in time (the smaller rank settles first).
\<close>

record ('x, 'a) promise =
  outcome :: "'x + 'a"
  settled_at :: nat

text \<open>
  \<open>Promise.all\<close> fulfils with the values in the order of its argument when every promise
  fulfils, and rejects with the reason of the promise that rejects first in time. Among
  equal ranks the earlier position is taken.
\<close>

fun first_rejection :: "('x, 'a) promise list \<Rightarrow> ('x \<times> nat) option" where
  "first_rejection [] = None"
| "first_rejection (p # ps) =
     (case outcome p of
        Inr v \<Rightarrow> first_rejection ps
      | Inl x \<Rightarrow>
          (case first_rejection ps of
             None \<Rightarrow> Some (x, settled_at p)
           | Some (y, t) \<Rightarrow> if settled_at p \<le> t then Some (x, settled_at p) else Some (y, t)))"

definition fulfilled :: "('x, 'a) promise \<Rightarrow> 'a list" where
  "fulfilled p = (case outcome p of Inr v \<Rightarrow> [v] | Inl x \<Rightarrow> [])"

definition promise_all :: "('x, 'a) promise list \<Rightarrow> 'x + 'a list" where
  "promise_all ps =
     (case first_rejection ps of
        Some (x, t) \<Rightarrow> Inl x
      | None \<Rightarrow> Inr (concat (map fulfilled ps)))"

text \<open>
  The network as \<open>request\<close> sees it: the outcome of the hyperboard query for an identifier,
  and the promise returned by the \<open>i\<close>-th per-identifier request (counted from 0) for a
  hypercert identifier.
\<close>

record ('x, 'r) network =
  hyperboard_reply :: "js_string \<Rightarrow> 'x + hyperboards_response"
  hypercert_reply :: "nat \<Rightarrow> js_string \<Rightarrow> ('x, 'r hypercerts_response option) promise"

text \<open>What the operation does besides returning: the requests it issues and its log line.\<close>

datatype event =
    Request_hyperboard js_string
  | Console_log "js_string list"
  | Request_hypercert js_string

subsection \<open>fetchHypercerts\<close>

text \<open>The returned object: \<open>{ data: ... }\<close> or \<open>{ error: ... }\<close>; an absent key is \<open>None\<close>.\<close>

record ('x, 'r) envelope =
  data :: "'r option list option"
  error :: "'x js_error option"

text \<open>
  Lines 15--18: the optional chain. It is \<open>undefined\<close> as soon as one guarded step is;
  otherwise it is the list of the entries' ids.
\<close>

definition hypercertIds_of :: "hyperboards_response \<Rightarrow> js_string list option" where
  "hypercertIds_of res =
     hyperboards res \<bind> hyperboards_data \<bind> nth0 \<bind> sections \<bind> sections_data \<bind> nth0
       \<bind> (\<lambda>s. Some (map entry_id (entries s)))"

text \<open>
  Line 33: \<open>hypercert?.hypercerts?.data?.[0] || null\<close>. A record is an object, hence truthy,
  so \<open>|| null\<close> only turns \<open>undefined\<close> into \<open>null\<close>; both are \<open>None\<close>.
\<close>

definition first_hypercert :: "'r hypercerts_response option \<Rightarrow> 'r option" where
  "first_hypercert hypercert = hypercert \<bind> hypercerts \<bind> hypercerts_data \<bind> nth0"

text \<open>
  Lines 25--29: one request for every identifier, all issued before any is awaited.
\<close>

definition request_all ::
  "('x, 'r) network \<Rightarrow> js_string list \<Rightarrow> ('x, 'r hypercerts_response option) promise list" where
  "request_all net hypercertIds =
     map (\<lambda>(i, hypercertId). hypercert_reply net i hypercertId) (enumerate 0 hypercertIds)"

text \<open>
  The body of the \<open>try\<close> block, lines 11--38: \<open>Inl\<close> is a thrown value, \<open>Inr\<close> the list
  that the \<open>return\<close> statement wraps. The second component lists the events in order.
  An array is truthy even when empty, so \<open>!hypercertIds\<close> holds for \<open>undefined\<close> only.
\<close>

definition fetchHypercerts_try ::
  "('x, 'r) network \<Rightarrow> js_string \<Rightarrow> ('x js_error + 'r option list) \<times> event list" where
  "fetchHypercerts_try net hyperboardId =
     (case hyperboard_reply net hyperboardId of
        Inl x \<Rightarrow> (Inl (Rejected x), [Request_hyperboard hyperboardId])
      | Inr res \<Rightarrow>
          (case hypercertIds_of res of
             None \<Rightarrow>
               (Inl (Error ''No hypercert IDs found (status code: 404)''),
                [Request_hyperboard hyperboardId])
           | Some hypercertIds \<Rightarrow>
               (let hypercertPromises = request_all net hypercertIds;
                    events = Request_hyperboard hyperboardId # Console_log hypercertIds
                               # map Request_hypercert hypercertIds
                in case promise_all hypercertPromises of
                     Inl x \<Rightarrow> (Inl (Rejected x), events)
                   | Inr hypercertsData \<Rightarrow>
                       (let hypercertList = map first_hypercert hypercertsData
                        in (Inr (filter (\<lambda>hypercert. hypercert \<noteq> None) hypercertList),
                            events)))))"

text \<open>Lines 10 and 36--43: the \<open>return\<close> of the \<open>try\<close> block and the \<open>catch\<close> clause.\<close>

definition fetchHypercerts ::
  "('x, 'r) network \<Rightarrow> js_string \<Rightarrow> ('x, 'r) envelope \<times> event list" where
  "fetchHypercerts net hyperboardId =
     (case fetchHypercerts_try net hyperboardId of
        (Inr hypercertList, events) \<Rightarrow> (\<lparr>data = Some hypercertList, error = None\<rparr>, events)
      | (Inl e, events) \<Rightarrow> (\<lparr>data = None, error = Some e\<rparr>, events))"

section \<open>Submission schema and formatter (src/components/submit/hypercert-form.tsx)\<close>

subsection \<open>String operations of the language\<close>

text \<open>
  \<open>s.split(sep)\<close>: scanning from the left, every occurrence of the separator that starts
  at or after the end of the previous one closes a segment. The segment under construction
  is \<open>seg\<close>. With the empty separator the string is cut into its code units.
\<close>

function split_from :: "js_string \<Rightarrow> js_string \<Rightarrow> js_string \<Rightarrow> js_string list" where
  "split_from sep seg [] = [seg]"
| "split_from sep seg (c # cs) =
     (if sep \<noteq> [] \<and> prefix sep (c # cs)
      then seg # split_from sep [] (drop (length sep) (c # cs))
      else split_from sep (seg @ [c]) cs)"
  by pat_completeness auto
termination
  by (relation "measure (\<lambda>(sep, seg, s). length s)") auto

definition js_split :: "js_string \<Rightarrow> js_string \<Rightarrow> js_string list" where
  "js_split s sep = (if sep = [] then map (\<lambda>c. [c]) s else split_from sep [] s)"

text \<open>
  \<open>s.trim()\<close> removes white space and line terminators from both ends: TAB, LF, VT, FF, CR,
  SPACE, NBSP, U+1680, U+2000 to U+200A, U+2028, U+2029, U+202F, U+205F, U+3000, U+FEFF.
\<close>

definition is_whitespace :: "code_unit \<Rightarrow> bool" where
  "is_whitespace c =
     (c \<in> {0x9, 0xA, 0xB, 0xC, 0xD, 0x20, 0xA0, 0x1680, 0x2028, 0x2029, 0x202F, 0x205F,
            0x3000, 0xFEFF}
      \<or> (0x2000 \<le> c \<and> c \<le> 0x200A))"

definition js_trim :: "js_string \<Rightarrow> js_string" where
  "js_trim s = rev (dropWhile is_whitespace (rev (dropWhile is_whitespace s)))"

subsection \<open>Dates and numbers\<close>

text \<open>
  A \<open>Date\<close> object holds a time value in milliseconds since the epoch, or is an invalid
  date, whose time value is \<open>NaN\<close>. Numbers are exact rationals here: the rounding of
  IEEE doubles is not part of the model.
\<close>

datatype js_date = Date int | Invalid_Date

datatype js_number = Num rat | NaN

fun getTime :: "js_date \<Rightarrow> js_number" where
  "getTime (Date t) = Num (of_int t)"
| "getTime Invalid_Date = NaN"

text \<open>\<open>x / 1000\<close>.\<close>

fun divide_1000 :: "js_number \<Rightarrow> js_number" where
  "divide_1000 (Num x) = Num (x / 1000)"
| "divide_1000 NaN = NaN"

text \<open>\<open>a <= b\<close> on two dates compares their time values; it is false when one is \<open>NaN\<close>.\<close>

fun date_le :: "js_date \<Rightarrow> js_date \<Rightarrow> bool" where
  "date_le (Date a) (Date b) = (a \<le> b)"
| "date_le Invalid_Date b = False"
| "date_le a Invalid_Date = False"

subsection \<open>The validation library\<close>

text \<open>
  The part of zod the schema uses. A schema maps the path of the value and the value to a
  status and the issues it adds, in order. \<open>VALID\<close> and \<open>DIRTY\<close> carry the parsed value;
  \<open>INVALID\<close> is zod's status \<open>aborted\<close>. An input \<open>None\<close> is \<open>undefined\<close>.
\<close>

datatype issue_code = invalid_type | invalid_date | too_small | too_big | invalid_string | custom

record issue =
  code :: issue_code
  path :: "string list"
  message :: string

datatype 'a parse_status = VALID 'a | DIRTY 'a | INVALID

type_synonym 'a parse_return = "'a parse_status \<times> issue list"

text \<open>
  \<open>z.string()\<close> with its checks \<open>.min(n, msg)\<close>, \<open>.max(n, msg)\<close> and \<open>.url(msg)\<close>. A value
  that is not a string aborts; a failing check adds its issue and the next check still runs.
  \<open>.url\<close> accepts what the platform's URL parser accepts, the parameter \<open>is_url\<close>.
\<close>

datatype string_check = Min nat string | Max nat string | Url string

fun check_issues :: "(js_string \<Rightarrow> bool) \<Rightarrow> string list \<Rightarrow> js_string \<Rightarrow> string_check \<Rightarrow> issue list" where
  "check_issues is_url p v (Min n msg) =
     (if length v < n then [\<lparr>code = too_small, path = p, message = msg\<rparr>] else [])"
| "check_issues is_url p v (Max n msg) =
     (if length v > n then [\<lparr>code = too_big, path = p, message = msg\<rparr>] else [])"
| "check_issues is_url p v (Url msg) =
     (if is_url v then [] else [\<lparr>code = invalid_string, path = p, message = msg\<rparr>])"

definition z_string ::
  "(js_string \<Rightarrow> bool) \<Rightarrow> string_check list \<Rightarrow> string list \<Rightarrow> js_string option
     \<Rightarrow> js_string parse_return" where
  "z_string is_url checks p input =
     (case input of
        None \<Rightarrow> (INVALID, [\<lparr>code = invalid_type, path = p, message = ''Required''\<rparr>])
      | Some v \<Rightarrow>
          (let issues = concat (map (check_issues is_url p v) checks)
           in (if issues = [] then VALID v else DIRTY v, issues)))"

text \<open>\<open>z.date()\<close>: an invalid date is refused.\<close>

definition z_date :: "string list \<Rightarrow> js_date option \<Rightarrow> js_date parse_return" where
  "z_date p input =
     (case input of
        None \<Rightarrow> (INVALID, [\<lparr>code = invalid_type, path = p, message = ''Required''\<rparr>])
      | Some Invalid_Date \<Rightarrow>
          (INVALID, [\<lparr>code = invalid_date, path = p, message = ''Invalid date''\<rparr>])
      | Some (Date t) \<Rightarrow> (VALID (Date t), []))"

definition z_boolean :: "string list \<Rightarrow> bool option \<Rightarrow> bool parse_return" where
  "z_boolean p input =
     (case input of
        None \<Rightarrow> (INVALID, [\<lparr>code = invalid_type, path = p, message = ''Required''\<rparr>])
      | Some b \<Rightarrow> (VALID b, []))"

text \<open>\<open>schema.default(v)\<close>: \<open>undefined\<close> is replaced by the default before parsing.\<close>

definition z_default ::
  "(string list \<Rightarrow> 'i option \<Rightarrow> 'a parse_return) \<Rightarrow> 'i \<Rightarrow> string list \<Rightarrow> 'i option
     \<Rightarrow> 'a parse_return" where
  "z_default schema v p input = schema p (case input of None \<Rightarrow> Some v | Some u \<Rightarrow> Some u)"

text \<open>
  \<open>schema.refine(check, { path, message })\<close>: nothing is checked when the inner schema
  aborted. A failing check adds a \<open>custom\<close> issue whose path is the path of the value
  followed by the \<open>path\<close> option, and makes the status dirty.
\<close>

definition refine ::
  "(string list \<Rightarrow> 'i \<Rightarrow> 'a parse_return) \<Rightarrow> ('a \<Rightarrow> bool) \<Rightarrow> string list \<Rightarrow> string
     \<Rightarrow> string list \<Rightarrow> 'i \<Rightarrow> 'a parse_return" where
  "refine schema check path_option msg p input =
     (case schema p input of
        (INVALID, issues) \<Rightarrow> (INVALID, issues)
      | (VALID v, issues) \<Rightarrow>
          (if check v then (VALID v, issues)
           else (DIRTY v, issues @ [\<lparr>code = custom, path = p @ path_option, message = msg\<rparr>]))
      | (DIRTY v, issues) \<Rightarrow>
          (if check v then (DIRTY v, issues)
           else (DIRTY v, issues @ [\<lparr>code = custom, path = p @ path_option, message = msg\<rparr>])))"

text \<open>
  \<open>schema.transform(f)\<close>. The value under a status other than \<open>VALID\<close> is never handed
  to the caller, so it does not matter that \<open>f\<close> is applied under \<open>DIRTY\<close> too.
\<close>

definition transform ::
  "(string list \<Rightarrow> 'i \<Rightarrow> 'a parse_return) \<Rightarrow> ('a \<Rightarrow> 'b) \<Rightarrow> string list \<Rightarrow> 'i
     \<Rightarrow> 'b parse_return" where
  "transform schema f p input =
     (case schema p input of
        (VALID v, issues) \<Rightarrow> (VALID (f v), issues)
      | (DIRTY v, issues) \<Rightarrow> (DIRTY (f v), issues)
      | (INVALID, issues) \<Rightarrow> (INVALID, issues))"

text \<open>
  \<open>z.object({...})\<close> parses every key in the order of the shape, whatever the earlier keys
  gave, and collects the issues. The object is aborted when one key is, dirty when one key
  is dirty, and valid otherwise. \<open>object_key\<close> adds the result of one key.
\<close>

fun merge_status :: "('a \<Rightarrow> 'b) parse_status \<Rightarrow> 'a parse_status \<Rightarrow> 'b parse_status" where
  "merge_status INVALID s = INVALID"
| "merge_status (VALID f) INVALID = INVALID"
| "merge_status (DIRTY f) INVALID = INVALID"
| "merge_status (VALID f) (VALID v) = VALID (f v)"
| "merge_status (VALID f) (DIRTY v) = DIRTY (f v)"
| "merge_status (DIRTY f) (VALID v) = DIRTY (f v)"
| "merge_status (DIRTY f) (DIRTY v) = DIRTY (f v)"

definition object_begin :: "'a \<Rightarrow> 'a parse_return" where
  "object_begin f = (VALID f, [])"

definition object_key :: "('a \<Rightarrow> 'b) parse_return \<Rightarrow> 'a parse_return \<Rightarrow> 'b parse_return" where
  "object_key acc r = (merge_status (fst acc) (fst r), snd acc @ snd r)"

text \<open>\<open>schema.safeParse(input)\<close>: the value when the status is valid, the issues otherwise.\<close>

definition safeParse :: "(string list \<Rightarrow> 'i \<Rightarrow> 'a parse_return) \<Rightarrow> 'i \<Rightarrow> issue list + 'a" where
  "safeParse schema input =
     (case schema [] input of
        (VALID v, issues) \<Rightarrow> Inr v
      | (DIRTY v, issues) \<Rightarrow> Inl issues
      | (INVALID, issues) \<Rightarrow> Inl issues)"

subsection \<open>HypercertMintSchema\<close>

text \<open>
  The draft handed to validation: the form's values, each possibly \<open>undefined\<close>
  (the form's default values give no \<open>cardImage\<close> and no \<open>contributors\<close>).
\<close>

record draft_date_range =
  draft_from :: "js_date option"
  draft_to :: "js_date option"

record draft =
  draft_title :: "js_string option"
  draft_description :: "js_string option"
  draft_link :: "js_string option"
  draft_cardImage :: "js_string option"
  draft_logo :: "js_string option"
  draft_banner :: "js_string option"
  draft_tags :: "js_string option"
  draft_projectDates :: "draft_date_range option"
  draft_workStartDate :: "js_date option"
  draft_workEndDate :: "js_date option"
  draft_contributors :: "js_string option"
  draft_acceptTerms :: "bool option"
  draft_confirmContributorsPermission :: "bool option"

text \<open>\<open>MintingFormValues\<close>, the validated values.\<close>

record date_range =
  range_from :: js_date
  range_to :: js_date

record minting_form_values =
  title :: js_string
  description :: js_string
  link :: js_string
  cardImage :: js_string
  logo :: js_string
  banner :: js_string
  tags :: js_string
  projectDates :: date_range
  workStartDate :: js_date
  workEndDate :: js_date
  contributors :: "js_string list"
  acceptTerms :: bool
  confirmContributorsPermission :: bool

text \<open>Lines 46--49.\<close>

definition title_schema ::
  "(js_string \<Rightarrow> bool) \<Rightarrow> string list \<Rightarrow> js_string option \<Rightarrow> js_string parse_return" where
  "title_schema is_url =
     z_string is_url
       [Min 1 ''Hypercert Name is required'',
        Max 50 ''Hypercert Name must be less than 50 characters'']"

text \<open>Lines 50--55.\<close>

definition description_schema ::
  "(js_string \<Rightarrow> bool) \<Rightarrow> string list \<Rightarrow> js_string option \<Rightarrow> js_string parse_return" where
  "description_schema is_url =
     z_string is_url
       [Min 10 ''Description is required and must be at least 10 characters'',
        Max 500 ''Description must be less than 500 characters'']"

text \<open>Lines 56--61.\<close>

definition link_schema ::
  "(js_string \<Rightarrow> bool) \<Rightarrow> string list \<Rightarrow> js_string option \<Rightarrow> js_string parse_return" where
  "link_schema is_url = z_string is_url [Url ''Link must be a valid URL'']"

definition cardImage_schema ::
  "(js_string \<Rightarrow> bool) \<Rightarrow> string list \<Rightarrow> js_string option \<Rightarrow> js_string parse_return" where
  "cardImage_schema is_url = z_string is_url [Url ''Card image not generated'']"

definition logo_schema ::
  "(js_string \<Rightarrow> bool) \<Rightarrow> string list \<Rightarrow> js_string option \<Rightarrow> js_string parse_return" where
  "logo_schema is_url = z_string is_url [Url ''Logo Image must be a valid URL'']"

definition banner_schema ::
  "(js_string \<Rightarrow> bool) \<Rightarrow> string list \<Rightarrow> js_string option \<Rightarrow> js_string parse_return" where
  "banner_schema is_url =
     z_string is_url [Url ''Background Banner Image must be a valid URL'']"

text \<open>Lines 62--67: \<open>val.split(",").every((tag) => tag.trim() !== "")\<close>.\<close>

definition tags_check :: "js_string \<Rightarrow> bool" where
  "tags_check val = list_all (\<lambda>tag. js_trim tag \<noteq> []) (js_split val (str '',''))"

definition tags_schema ::
  "(js_string \<Rightarrow> bool) \<Rightarrow> string list \<Rightarrow> js_string option \<Rightarrow> js_string parse_return" where
  "tags_schema is_url =
     refine (z_string is_url []) tags_check []
       ''Tags must must not be empty, Multiple tags must be separated by commas''"

text \<open>
  Lines 68--81: the object of two dates, \<open>required_error\<close> for an \<open>undefined\<close> value, and
  the refinement \<open>data.from <= data.to\<close> with the option \<open>path: ["projectDates"]\<close>.
\<close>

definition projectDates_object ::
  "string list \<Rightarrow> draft_date_range option \<Rightarrow> date_range parse_return" where
  "projectDates_object p input =
     (case input of
        None \<Rightarrow>
          (INVALID,
           [\<lparr>code = invalid_type, path = p, message = ''Please select a date range''\<rparr>])
      | Some r \<Rightarrow>
          object_key
            (object_key (object_begin (\<lambda>f t. \<lparr>range_from = f, range_to = t\<rparr>))
               (z_date (p @ [''from'']) (draft_from r)))
            (z_date (p @ [''to'']) (draft_to r)))"

definition projectDates_schema ::
  "string list \<Rightarrow> draft_date_range option \<Rightarrow> date_range parse_return" where
  "projectDates_schema =
     refine projectDates_object (\<lambda>data. date_le (range_from data) (range_to data))
       [''projectDates''] ''From date must be before to date''"

text \<open>
  Lines 82--83: \<open>new Date("2024-06-02")\<close> and \<open>new Date("2024-06-30")\<close> are midnight UTC of
  these days, in milliseconds.
\<close>

definition workStartDate_schema :: "string list \<Rightarrow> js_date option \<Rightarrow> js_date parse_return" where
  "workStartDate_schema = z_default z_date (Date 1717286400000)"

definition workEndDate_schema :: "string list \<Rightarrow> js_date option \<Rightarrow> js_date parse_return" where
  "workEndDate_schema = z_default z_date (Date 1719705600000)"

text \<open>
  Modelled from the spec: \<open>isValidEthereumAddress\<close> of \<open>@/lib/utils\<close>, which is not among
  the sources. The specification gives the pattern: \<open>0x\<close> followed by 40 hexadecimal
  characters.
\<close>

definition is_hex :: "code_unit \<Rightarrow> bool" where
  "is_hex c =
     ((0x30 \<le> c \<and> c \<le> 0x39) \<or> (0x41 \<le> c \<and> c \<le> 0x46) \<or> (0x61 \<le> c \<and> c \<le> 0x66))"

definition isValidEthereumAddress :: "js_string \<Rightarrow> bool" where
  "isValidEthereumAddress address =
     (take 2 address = str ''0x'' \<and> length (drop 2 address) = 40
      \<and> list_all is_hex (drop 2 address))"

text \<open>
  Lines 84--99. The refinement splits at \<open>", "\<close> and trims; the transformation splits at
  \<open>","\<close> and trims.
\<close>

definition contributors_check :: "js_string \<Rightarrow> bool" where
  "contributors_check v =
     (let addresses = map js_trim (js_split v (str '', ''))
      in list_all isValidEthereumAddress addresses)"

definition contributors_transform :: "js_string \<Rightarrow> js_string list" where
  "contributors_transform v = map js_trim (js_split v (str '',''))"

definition contributors_schema ::
  "(js_string \<Rightarrow> bool) \<Rightarrow> string list \<Rightarrow> js_string option \<Rightarrow> js_string list parse_return" where
  "contributors_schema is_url =
     transform
       (refine (z_string is_url []) contributors_check []
          ''Each value must be a valid Ethereum address separated by a comma and a space.'')
       contributors_transform"

text \<open>Lines 45--102: the object, its keys in the order of the source.\<close>

definition HypercertMintSchema ::
  "(js_string \<Rightarrow> bool) \<Rightarrow> string list \<Rightarrow> draft \<Rightarrow> minting_form_values parse_return" where
  "HypercertMintSchema is_url p d =
     object_key (object_key (object_key (object_key (object_key (object_key (object_key
     (object_key (object_key (object_key (object_key (object_key (object_key
       (object_begin
          (\<lambda>v1 v2 v3 v4 v5 v6 v7 v8 v9 v10 v11 v12 v13.
             \<lparr>title = v1, description = v2, link = v3, cardImage = v4, logo = v5, banner = v6,
              tags = v7, projectDates = v8, workStartDate = v9, workEndDate = v10,
              contributors = v11, acceptTerms = v12, confirmContributorsPermission = v13\<rparr>))
       (title_schema is_url (p @ [''title'']) (draft_title d)))
       (description_schema is_url (p @ [''description'']) (draft_description d)))
       (link_schema is_url (p @ [''link'']) (draft_link d)))
       (cardImage_schema is_url (p @ [''cardImage'']) (draft_cardImage d)))
       (logo_schema is_url (p @ [''logo'']) (draft_logo d)))
       (banner_schema is_url (p @ [''banner'']) (draft_banner d)))
       (tags_schema is_url (p @ [''tags'']) (draft_tags d)))
       (projectDates_schema (p @ [''projectDates'']) (draft_projectDates d)))
       (workStartDate_schema (p @ [''workStartDate'']) (draft_workStartDate d)))
       (workEndDate_schema (p @ [''workEndDate'']) (draft_workEndDate d)))
       (contributors_schema is_url (p @ [''contributors'']) (draft_contributors d)))
       (z_boolean (p @ [''acceptTerms'']) (draft_acceptTerms d)))
       (z_boolean (p @ [''confirmContributorsPermission''])
          (draft_confirmContributorsPermission d))"

text \<open>Validation of a draft, as the form's resolver runs it.\<close>

definition validate :: "(js_string \<Rightarrow> bool) \<Rightarrow> draft \<Rightarrow> issue list + minting_form_values" where
  "validate is_url d = safeParse (HypercertMintSchema is_url) d"

subsection \<open>onSubmit\<close>

text \<open>
  The argument of \<open>formatHypercertData\<close>, lines 145--167: the four keys of \<open>metadata\<close>,
  spread, and the keys written after them.
\<close>

record format_argument =
  arg_name :: js_string
  arg_description :: js_string
  arg_image :: js_string
  arg_external_url :: js_string
  arg_version :: js_string
  arg_properties :: "(js_string \<times> js_string) list"
  arg_impactScope :: "js_string list"
  arg_excludedImpactScope :: "js_string list"
  arg_workScope :: "js_string list"
  arg_excludedWorkScope :: "js_string list"
  arg_rights :: "js_string list"
  arg_excludedRights :: "js_string list"
  arg_workTimeframeStart :: js_number
  arg_workTimeframeEnd :: js_number
  arg_impactTimeframeStart :: js_number
  arg_impactTimeframeEnd :: js_number
  arg_contributors :: "js_string list"

definition metadata_argument :: "js_string list \<Rightarrow> minting_form_values \<Rightarrow> format_argument" where
  "metadata_argument badges values =
     \<lparr>arg_name = title values,
      arg_description = description values,
      arg_image = cardImage values,
      arg_external_url = link values,
      arg_version = str ''2.0'',
      arg_properties = [],
      arg_impactScope = [str ''all''],
      arg_excludedImpactScope = [],
      arg_workScope = badges,
      arg_excludedWorkScope = [],
      arg_rights = [str ''Public Display''],
      arg_excludedRights = [],
      arg_workTimeframeStart = divide_1000 (getTime (range_from (projectDates values))),
      arg_workTimeframeEnd = divide_1000 (getTime (range_to (projectDates values))),
      arg_impactTimeframeStart = divide_1000 (getTime (range_from (projectDates values))),
      arg_impactTimeframeEnd = divide_1000 (getTime (range_to (projectDates values))),
      arg_contributors = contributors values\<rparr>"

text \<open>
  \<open>onSubmit\<close> hands the argument to \<open>formatHypercertData\<close> of the SDK, a parameter here,
  and logs what it returns; the logged value is the result. \<open>badges\<close> is the state of the
  component that the source reads.
\<close>

definition onSubmit :: "(format_argument \<Rightarrow> 'm) \<Rightarrow> js_string list \<Rightarrow> minting_form_values \<Rightarrow> 'm" where
  "onSubmit formatHypercertData badges values =
     (let formattedMetadata = formatHypercertData (metadata_argument badges values)
      in formattedMetadata)"

section \<open>Notions of the specification\<close>

text \<open>
  The specification speaks of ``the first hyperboard'', ``the first section'' and ``the
  entries''. These follow its words; \<open>hypercertIds_of\<close> above follows the source.
\<close>

definition first_hyperboard :: "hyperboards_response \<Rightarrow> hyperboard option" where
  "first_hyperboard res = hyperboards res \<bind> hyperboards_data \<bind> nth0"

definition first_section_of :: "hyperboard \<Rightarrow> board_section option" where
  "first_section_of h = sections h \<bind> sections_data \<bind> nth0"

definition first_section :: "hyperboards_response \<Rightarrow> board_section option" where
  "first_section res = first_hyperboard res \<bind> first_section_of"

text \<open>
  The records the specification expects on success: going through the identifiers in their
  order, the first record of each reply, nothing for a reply without one.
\<close>

definition surviving_records :: "('x, 'r) network \<Rightarrow> js_string list \<Rightarrow> 'r list" where
  "surviving_records net ids =
     concat (map (\<lambda>(i, hypercertId).
                    case outcome (hypercert_reply net i hypercertId) of
                      Inl x \<Rightarrow> []
                    | Inr response \<Rightarrow>
                        (case first_hypercert response of None \<Rightarrow> [] | Some r \<Rightarrow> [r]))
               (enumerate 0 ids))"

text \<open>A status is valid; the issues reported at one path.\<close>

fun is_VALID :: "'a parse_status \<Rightarrow> bool" where
  "is_VALID (VALID v) = True"
| "is_VALID (DIRTY v) = False"
| "is_VALID INVALID = False"

definition issues_at :: "string list \<Rightarrow> issue list \<Rightarrow> issue list" where
  "issues_at q issues = filter (\<lambda>i. path i = q) issues"

text \<open>The two addresses and the contributors string of the specification's round trip.\<close>

definition address_a :: js_string where
  "address_a = str ''0xaaaaaaaaaaaaaaaaaaaaaaaaaaaaaaaaaaaaaaaa''"

definition address_b :: js_string where
  "address_b = str ''0xbbbbbbbbbbbbbbbbbbbbbbbbbbbbbbbbbbbbbbbb''"

definition two_contributors :: js_string where
  "two_contributors =
     str ''0xaaaaaaaaaaaaaaaaaaaaaaaaaaaaaaaaaaaaaaaa, 0xbbbbbbbbbbbbbbbbbbbbbbbbbbbbbbbbbbbbbbbb''"

text \<open>
  The draft of the specification's round trip, in its words: the title, a description of
  at least 10 characters, four well-formed URLs, the tags, a range with from \<open>\<le>\<close> to, and
  the contributors.
\<close>

definition round_trip_draft :: "(js_string \<Rightarrow> bool) \<Rightarrow> draft \<Rightarrow> bool" where
  "round_trip_draft is_url d =
     (draft_title d = Some (str ''Edge Esmeralda Hypercert'')
      \<and> (case draft_description d of None \<Rightarrow> False | Some s \<Rightarrow> 10 \<le> length s)
      \<and> (case draft_link d of None \<Rightarrow> False | Some u \<Rightarrow> is_url u)
      \<and> (case draft_logo d of None \<Rightarrow> False | Some u \<Rightarrow> is_url u)
      \<and> (case draft_banner d of None \<Rightarrow> False | Some u \<Rightarrow> is_url u)
      \<and> (case draft_cardImage d of None \<Rightarrow> False | Some u \<Rightarrow> is_url u)
      \<and> draft_tags d = Some (str ''impact, climate'')
      \<and> (case draft_projectDates d of
            None \<Rightarrow> False
          | Some r \<Rightarrow>
              (case draft_from r of
                 None \<Rightarrow> False
               | Some f \<Rightarrow> (case draft_to r of None \<Rightarrow> False | Some t \<Rightarrow> date_le f t)))
      \<and> draft_contributors d = Some two_contributors)"

text \<open>\<open>segments.join(sep)\<close>, to say what splitting preserves.\<close>

fun join :: "js_string \<Rightarrow> js_string list \<Rightarrow> js_string" where
  "join sep [] = []"
| "join sep [x] = x"
| "join sep (x # y # ys) = x @ sep @ join sep (y # ys)"

section \<open>Concrete inputs\<close>

subsection \<open>Networks\<close>

text \<open>A reply with one hyperboard of one section that lists the given identifiers.\<close>

definition response_with_entries :: "js_string list \<Rightarrow> hyperboards_response" where
  "response_with_entries ids =
     \<lparr>hyperboards = Some \<lparr>hyperboards_data = Some
        [\<lparr>sections = Some \<lparr>sections_data = Some
           [\<lparr>entries = map (\<lambda>i. \<lparr>entry_id = i\<rparr>) ids\<rparr>]\<rparr>\<rparr>]\<rparr>\<rparr>"

definition found :: "nat list \<Rightarrow> nat hypercerts_response option" where
  "found rs = Some \<lparr>hypercerts = Some \<lparr>hypercerts_data = Some rs\<rparr>\<rparr>"

definition three_ids :: "js_string list" where
  "three_ids = [str ''a'', str ''b'', str ''c'']"

text \<open>The hyperboard exists and its section has no entries.\<close>

definition empty_board_network :: "(nat, nat) network" where
  "empty_board_network =
     \<lparr>hyperboard_reply = (\<lambda>h. Inr (response_with_entries [])),
      hypercert_reply = (\<lambda>i h. \<lparr>outcome = Inr None, settled_at = i\<rparr>)\<rparr>"

text \<open>No hyperboard has the identifier.\<close>

definition missing_board_network :: "(nat, nat) network" where
  "missing_board_network =
     \<lparr>hyperboard_reply = (\<lambda>h. Inr \<lparr>hyperboards = Some \<lparr>hyperboards_data = Some []\<rparr>\<rparr>),
      hypercert_reply = (\<lambda>i h. \<lparr>outcome = Inr None, settled_at = i\<rparr>)\<rparr>"

text \<open>The hyperboard query is rejected.\<close>

definition unreachable_network :: "(nat, nat) network" where
  "unreachable_network =
     \<lparr>hyperboard_reply = (\<lambda>h. Inl 500),
      hypercert_reply = (\<lambda>i h. \<lparr>outcome = Inr None, settled_at = i\<rparr>)\<rparr>"

text \<open>
  Three identifiers; the reply for \<open>b\<close> has no record; the replies arrive in the reverse
  order of the requests.
\<close>

definition three_records_network :: "(nat, nat) network" where
  "three_records_network =
     \<lparr>hyperboard_reply = (\<lambda>h. Inr (response_with_entries three_ids)),
      hypercert_reply =
        (\<lambda>i h. \<lparr>outcome = Inr (if h = str ''b'' then found [] else found [10 * (i + 1), 7]),
                settled_at = 3 - i\<rparr>)\<rparr>"

text \<open>The second and the third request are rejected, the third one first.\<close>

definition rejecting_network :: "(nat, nat) network" where
  "rejecting_network =
     \<lparr>hyperboard_reply = (\<lambda>h. Inr (response_with_entries three_ids)),
      hypercert_reply =
        (\<lambda>i h. \<lparr>outcome = (if i = 0 then Inr (found [10]) else Inl (500 + i)),
                settled_at = 3 - i\<rparr>)\<rparr>"

text \<open>Only the second request is rejected.\<close>

definition one_rejecting_network :: "(nat, nat) network" where
  "one_rejecting_network =
     \<lparr>hyperboard_reply = (\<lambda>h. Inr (response_with_entries three_ids)),
      hypercert_reply =
        (\<lambda>i h. \<lparr>outcome = (if i = 1 then Inl 503 else Inr (found [i])), settled_at = i\<rparr>)\<rparr>"

subsection \<open>Drafts\<close>

text \<open>In the examples a URL is well formed when it starts with \<open>https://\<close>.\<close>

definition is_https :: "js_string \<Rightarrow> bool" where
  "is_https s = prefix (str ''https://'') s"

definition example_draft :: draft where
  "example_draft =
     \<lparr>draft_title = Some (str ''Edge Esmeralda Hypercert''),
      draft_description = Some (str ''Ten chars or more''),
      draft_link = Some (str ''https://hypercerts.org''),
      draft_cardImage = Some (str ''https://i.imgur.com/card.png''),
      draft_logo = Some (str ''https://i.imgur.com/hypercert-logo.png''),
      draft_banner = Some (str ''https://i.imgur.com/hypercert-banner.png''),
      draft_tags = Some (str ''impact, climate''),
      draft_projectDates =
        Some \<lparr>draft_from = Some (Date 1717286400000), draft_to = Some (Date 1719705600000)\<rparr>,
      draft_workStartDate = None,
      draft_workEndDate = None,
      draft_contributors = Some two_contributors,
      draft_acceptTerms = Some True,
      draft_confirmContributorsPermission = Some True\<rparr>"

definition example_values :: minting_form_values where
  "example_values =
     \<lparr>title = str ''Edge Esmeralda Hypercert'',
      description = str ''Ten chars or more'',
      link = str ''https://hypercerts.org'',
      cardImage = str ''https://i.imgur.com/card.png'',
      logo = str ''https://i.imgur.com/hypercert-logo.png'',
      banner = str ''https://i.imgur.com/hypercert-banner.png'',
      tags = str ''impact, climate'',
      projectDates = \<lparr>range_from = Date 1717286400000, range_to = Date 1719705600000\<rparr>,
      workStartDate = Date 1717286400000,
      workEndDate = Date 1719705600000,
      contributors = [address_a, address_b],
      acceptTerms = True,
      confirmContributorsPermission = True\<rparr>"

text \<open>The example with a description of 501 characters.\<close>

definition long_description_draft :: draft where
  "long_description_draft = example_draft\<lparr>draft_description := Some (replicate 501 0x61)\<rparr>"

text \<open>The example with the two project dates exchanged.\<close>

definition reversed_dates_draft :: draft where
  "reversed_dates_draft =
     example_draft\<lparr>draft_projectDates :=
       Some \<lparr>draft_from = Some (Date 1719705600000), draft_to = Some (Date 1717286400000)\<rparr>\<rparr>"

text \<open>The example with an empty segment among the tags, and with no contributors.\<close>

definition empty_segment_draft :: draft where
  "empty_segment_draft = example_draft\<lparr>draft_tags := Some (str ''impact,,climate'')\<rparr>"

definition no_contributors_draft :: draft where
  "no_contributors_draft = example_draft\<lparr>draft_contributors := Some (str '''')\<rparr>"

text \<open>The validated example with other work dates.\<close>

definition other_work_dates_values :: minting_form_values where
  "other_work_dates_values =
     example_values\<lparr>workStartDate := Date 0, workEndDate := Date 86400000\<rparr>"

section \<open>Properties of the retrieval\<close>

subsection \<open>The optional chain\<close>

lemma hypercertIds_of_first_section:
  "hypercertIds_of res = map_option (\<lambda>s. map entry_id (entries s)) (first_section res)"
  by (simp add: hypercertIds_of_def first_section_def first_hyperboard_def first_section_of_def
      split: Option.bind_splits)

lemma first_section_None_iff:
  "first_section res = None \<longleftrightarrow>
     first_hyperboard res = None
     \<or> (\<exists>h. first_hyperboard res = Some h \<and> first_section_of h = None)"
  by (cases "first_hyperboard res") (simp_all add: first_section_def)

subsection \<open>Promise.all\<close>

lemma first_rejection_None_iff:
  "first_rejection ps = None \<longleftrightarrow> (\<forall>p \<in> set ps. \<exists>v. outcome p = Inr v)"
  by (induction ps) (auto split: sum.splits option.splits)

lemma first_rejection_Some:
  "first_rejection ps = Some (y, t) \<Longrightarrow>
     (\<exists>p \<in> set ps. outcome p = Inl y \<and> settled_at p = t)
     \<and> (\<forall>q \<in> set ps. \<forall>z. outcome q = Inl z \<longrightarrow> t \<le> settled_at q)"
proof (induction ps arbitrary: y t)
  case Nil
  then show ?case by simp
next
  case (Cons p ps)
  show ?case
  proof (cases "outcome p")
    case (Inr v)
    with Cons show ?thesis by auto
  next
    case (Inl x)
    show ?thesis
    proof (cases "first_rejection ps")
      case None
      with Inl Cons.prems show ?thesis
        by (auto simp: first_rejection_None_iff)
    next
      case (Some yt)
      obtain y' t' where yt: "yt = (y', t')" by (cases yt)
      from Cons.IH [of y' t'] Some yt
      have ih: "\<exists>p \<in> set ps. outcome p = Inl y' \<and> settled_at p = t'"
        "\<forall>q \<in> set ps. \<forall>z. outcome q = Inl z \<longrightarrow> t' \<le> settled_at q"
        by auto
      show ?thesis
      proof (cases "settled_at p \<le> t'")
        case True
        with Inl Some yt Cons.prems have "y = x" "t = settled_at p" by auto
        with True ih Inl show ?thesis by fastforce
      next
        case False
        with Inl Some yt Cons.prems have "y = y'" "t = t'" by auto
        with False ih Inl show ?thesis by fastforce
      qed
    qed
  qed
qed

lemma filter_fulfilled:
  "first_rejection ps = None \<Longrightarrow>
     filter (\<lambda>h. h \<noteq> None) (map first_hypercert (concat (map fulfilled ps)))
       = map Some (concat (map (\<lambda>p. case outcome p of Inl x \<Rightarrow> []
              | Inr response \<Rightarrow>
                  (case first_hypercert response of None \<Rightarrow> [] | Some r \<Rightarrow> [r])) ps))"
  by (induction ps) (auto simp: fulfilled_def split: sum.splits option.splits if_splits)

subsection \<open>The requests\<close>

lemma request_all_length: "length (request_all net ids) = length ids"
  by (simp add: request_all_def)

lemma request_all_nth:
  "i < length ids \<Longrightarrow> request_all net ids ! i = hypercert_reply net i (ids ! i)"
  by (simp add: request_all_def nth_enumerate_eq)

lemma request_all_set:
  "set (request_all net ids) = {hypercert_reply net i (ids ! i) | i. i < length ids}"
proof -
  have "p \<in> set (request_all net ids)
          \<longleftrightarrow> (\<exists>i < length ids. p = hypercert_reply net i (ids ! i))" for p
    unfolding in_set_conv_nth request_all_length by (metis request_all_nth)
  then show ?thesis by blast
qed

lemma surviving_records_request_all:
  "surviving_records net ids =
     concat (map (\<lambda>p. case outcome p of Inl x \<Rightarrow> []
              | Inr response \<Rightarrow>
                  (case first_hypercert response of None \<Rightarrow> [] | Some r \<Rightarrow> [r]))
        (request_all net ids))"
  by (simp add: surviving_records_def request_all_def comp_def split_def)

lemma all_fulfilled_no_rejection:
  assumes "\<forall>i < length ids. \<exists>v. outcome (hypercert_reply net i (ids ! i)) = Inr v"
  shows "first_rejection (request_all net ids) = None"
  unfolding first_rejection_None_iff request_all_set using assms by blast

lemma some_rejected_first_rejection:
  assumes "i < length ids" "outcome (hypercert_reply net i (ids ! i)) = Inl x"
  shows "\<exists>y t. first_rejection (request_all net ids) = Some (y, t)"
proof (cases "first_rejection (request_all net ids)")
  case None
  moreover have "hypercert_reply net i (ids ! i) \<in> set (request_all net ids)"
    unfolding request_all_set using assms(1) by blast
  ultimately have "\<exists>v. outcome (hypercert_reply net i (ids ! i)) = Inr v"
    unfolding first_rejection_None_iff by blast
  with assms(2) show ?thesis by simp
next
  case (Some a)
  then show ?thesis by (cases a) simp
qed

lemma first_rejection_index:
  assumes "first_rejection (request_all net ids) = Some (y, t)"
  shows "\<exists>j < length ids. outcome (hypercert_reply net j (ids ! j)) = Inl y
           \<and> settled_at (hypercert_reply net j (ids ! j)) = t"
    and "\<And>i z. i < length ids \<Longrightarrow> outcome (hypercert_reply net i (ids ! i)) = Inl z
           \<Longrightarrow> t \<le> settled_at (hypercert_reply net i (ids ! i))"
proof -
  from first_rejection_Some [OF assms]
  obtain p where p: "p \<in> set (request_all net ids)" "outcome p = Inl y" "settled_at p = t"
    and least: "\<forall>q \<in> set (request_all net ids). \<forall>z. outcome q = Inl z \<longrightarrow> t \<le> settled_at q"
    by blast
  from p(1) obtain j where "j < length ids" "p = hypercert_reply net j (ids ! j)"
    unfolding request_all_set by blast
  with p show "\<exists>j < length ids. outcome (hypercert_reply net j (ids ! j)) = Inl y
           \<and> settled_at (hypercert_reply net j (ids ! j)) = t"
    by auto
  fix i z
  assume i: "i < length ids" "outcome (hypercert_reply net i (ids ! i)) = Inl z"
  then have "hypercert_reply net i (ids ! i) \<in> set (request_all net ids)"
    unfolding request_all_set by blast
  with least i(2) show "t \<le> settled_at (hypercert_reply net i (ids ! i))"
    by blast
qed

subsection \<open>The three ways through the try block\<close>

lemma fetchHypercerts_try_requests:
  assumes "hyperboard_reply net hb = Inr res" and "hypercertIds_of res = Some ids"
  shows "fetchHypercerts_try net hb =
     (case promise_all (request_all net ids) of
        Inl x \<Rightarrow>
          (Inl (Rejected x), Request_hyperboard hb # Console_log ids # map Request_hypercert ids)
      | Inr hypercertsData \<Rightarrow>
          (Inr (filter (\<lambda>hypercert. hypercert \<noteq> None) (map first_hypercert hypercertsData)),
           Request_hyperboard hb # Console_log ids # map Request_hypercert ids))"
  unfolding fetchHypercerts_try_def Let_def
  by (simp only: assms sum.case option.case)

lemma fetchHypercerts_try_fulfilled:
  assumes "hyperboard_reply net hb = Inr res"
    and "hypercertIds_of res = Some ids"
    and "first_rejection (request_all net ids) = None"
  shows "fetchHypercerts_try net hb =
     (Inr (map Some (surviving_records net ids)),
      Request_hyperboard hb # Console_log ids # map Request_hypercert ids)"
proof -
  have "promise_all (request_all net ids) = Inr (concat (map fulfilled (request_all net ids)))"
    using assms(3) by (simp add: promise_all_def)
  then show ?thesis
    unfolding fetchHypercerts_try_requests [OF assms(1,2)] surviving_records_request_all
    by (simp only: sum.case filter_fulfilled [OF assms(3)])
qed

lemma fetchHypercerts_try_rejected:
  assumes "hyperboard_reply net hb = Inr res"
    and "hypercertIds_of res = Some ids"
    and "first_rejection (request_all net ids) = Some (y, t)"
  shows "fetchHypercerts_try net hb =
     (Inl (Rejected y), Request_hyperboard hb # Console_log ids # map Request_hypercert ids)"
proof -
  have "promise_all (request_all net ids) = Inl y"
    using assms(3) by (simp add: promise_all_def)
  then show ?thesis
    unfolding fetchHypercerts_try_requests [OF assms(1,2)] by (simp only: sum.case)
qed

subsection \<open>Evaluation of the concrete networks\<close>

lemma ids_of_response_with_entries: "hypercertIds_of (response_with_entries ids) = Some ids"
  by (simp add: hypercertIds_of_def response_with_entries_def comp_def)

lemma first_section_response_with_entries:
  "first_section (response_with_entries ids) = Some \<lparr>entries = map (\<lambda>i. \<lparr>entry_id = i\<rparr>) ids\<rparr>"
  by (simp add: first_section_def first_hyperboard_def first_section_of_def
      response_with_entries_def)

lemma three_ids_distinct: "str ''a'' \<noteq> str ''b''" "str ''c'' \<noteq> str ''b''"
  by (simp_all add: str_def)

lemma fetch_empty_board:
  "fetchHypercerts empty_board_network hb =
     (\<lparr>data = Some [], error = None\<rparr>, [Request_hyperboard hb, Console_log []])"
  by (simp add: fetchHypercerts_def fetchHypercerts_try_def empty_board_network_def
      ids_of_response_with_entries request_all_def promise_all_def)

lemma fetch_rejecting:
  "fst (fetchHypercerts rejecting_network hb) = \<lparr>data = None, error = Some (Rejected 502)\<rparr>"
  by (simp add: fetchHypercerts_def fetchHypercerts_try_def rejecting_network_def
      ids_of_response_with_entries request_all_def promise_all_def three_ids_def)

subsection \<open>The claims\<close>

text \<open>
  Claim C1, as the code has it. When the reply names no first hyperboard, or its first
  hyperboard has no first section, \<open>fetchHypercerts\<close> returns the failure envelope with the
  fixed message, and the hyperboard query is the only request. When the first section
  exists and its entries list is empty, the result is the success envelope with no record;
  again no per-identifier request is issued.
\<close>

theorem fetchHypercerts_not_found:
  assumes "hyperboard_reply net hyperboardId = Inr res"
  shows "(first_hyperboard res = None
            \<or> (\<exists>h. first_hyperboard res = Some h \<and> first_section_of h = None)
          \<longrightarrow> fetchHypercerts net hyperboardId =
                (\<lparr>data = None,
                  error = Some (Error ''No hypercert IDs found (status code: 404)'')\<rparr>,
                 [Request_hyperboard hyperboardId]))
       \<and> ((\<exists>s. first_section res = Some s \<and> entries s = [])
          \<longrightarrow> fetchHypercerts net hyperboardId =
                (\<lparr>data = Some [], error = None\<rparr>,
                 [Request_hyperboard hyperboardId, Console_log []]))"
proof (intro conjI impI)
  assume "first_hyperboard res = None
            \<or> (\<exists>h. first_hyperboard res = Some h \<and> first_section_of h = None)"
  then have "first_section res = None" by (simp add: first_section_None_iff)
  then have "hypercertIds_of res = None" by (simp add: hypercertIds_of_first_section)
  with assms show "fetchHypercerts net hyperboardId =
                (\<lparr>data = None,
                  error = Some (Error ''No hypercert IDs found (status code: 404)'')\<rparr>,
                 [Request_hyperboard hyperboardId])"
    by (simp add: fetchHypercerts_def fetchHypercerts_try_def)
next
  assume "\<exists>s. first_section res = Some s \<and> entries s = []"
  then have "hypercertIds_of res = Some []" by (auto simp: hypercertIds_of_first_section)
  with assms show "fetchHypercerts net hyperboardId =
                (\<lparr>data = Some [], error = None\<rparr>,
                 [Request_hyperboard hyperboardId, Console_log []])"
    by (simp add: fetchHypercerts_def fetchHypercerts_try_def request_all_def promise_all_def)
qed

text \<open>The theorem at a network without the hyperboard and at one whose section is empty.\<close>

theorem fetchHypercerts_not_found_witness:
  "fetchHypercerts missing_board_network (str ''board'') =
     (\<lparr>data = None, error = Some (Error ''No hypercert IDs found (status code: 404)'')\<rparr>,
      [Request_hyperboard (str ''board'')])
   \<and> fetchHypercerts empty_board_network (str ''board'') =
     (\<lparr>data = Some [], error = None\<rparr>, [Request_hyperboard (str ''board''), Console_log []])"
proof -
  have 1: "hyperboard_reply missing_board_network (str ''board'') =
             Inr \<lparr>hyperboards = Some \<lparr>hyperboards_data = Some []\<rparr>\<rparr>"
    by (simp add: missing_board_network_def)
  have 2: "first_hyperboard \<lparr>hyperboards = Some \<lparr>hyperboards_data = Some []\<rparr>\<rparr> = None"
    by (simp add: first_hyperboard_def)
  have 3: "hyperboard_reply empty_board_network (str ''board'') = Inr (response_with_entries [])"
    by (simp add: empty_board_network_def)
  have 4: "\<exists>s. first_section (response_with_entries []) = Some s \<and> entries s = []"
    by (simp add: first_section_response_with_entries)
  from fetchHypercerts_not_found [OF 1] 2 fetchHypercerts_not_found [OF 3] 4
  show ?thesis by blast
qed

text \<open>
  An entries list that is empty does not give the failure envelope: the hyperboard and its
  section are there, the list of identifiers is the empty array, and the result is the
  success envelope.
\<close>

theorem empty_entries_counterexample:
  "hyperboard_reply empty_board_network (str ''board'') = Inr (response_with_entries [])
   \<and> first_section (response_with_entries []) = Some \<lparr>entries = []\<rparr>
   \<and> fst (fetchHypercerts empty_board_network (str ''board'')) = \<lparr>data = Some [], error = None\<rparr>
   \<and> error (fst (fetchHypercerts empty_board_network (str ''board'')))
       \<noteq> Some (Error ''No hypercert IDs found (status code: 404)'')"
proof (intro conjI)
  show "hyperboard_reply empty_board_network (str ''board'') = Inr (response_with_entries [])"
    by (simp add: empty_board_network_def)
  show "first_section (response_with_entries []) = Some \<lparr>entries = []\<rparr>"
    by (simp add: first_section_response_with_entries)
  show "fst (fetchHypercerts empty_board_network (str ''board'')) = \<lparr>data = Some [], error = None\<rparr>"
    by (simp add: fetch_empty_board)
  show "error (fst (fetchHypercerts empty_board_network (str ''board'')))
       \<noteq> Some (Error ''No hypercert IDs found (status code: 404)'')"
    by (simp add: fetch_empty_board)
qed

text \<open>
  Claim C2. Whatever is thrown inside the operation comes back as the failure envelope
  carrying the thrown value, with no record list: the rejection of the hyperboard query;
  the not-found error; and, when some per-identifier request is rejected, the rejection of
  a request that was rejected no later than it, which is that very rejection when every
  other request is fulfilled. The operation is a total function into envelopes, so nothing
  is raised to the caller.
\<close>

theorem fetchHypercerts_failure:
  "(hyperboard_reply net hyperboardId = Inl x
      \<longrightarrow> fst (fetchHypercerts net hyperboardId) = \<lparr>data = None, error = Some (Rejected x)\<rparr>)
   \<and> (hyperboard_reply net hyperboardId = Inr res \<and> hypercertIds_of res = None
      \<longrightarrow> fst (fetchHypercerts net hyperboardId) =
            \<lparr>data = None, error = Some (Error ''No hypercert IDs found (status code: 404)'')\<rparr>)
   \<and> (hyperboard_reply net hyperboardId = Inr res \<and> hypercertIds_of res = Some ids
       \<and> i < length ids \<and> outcome (hypercert_reply net i (ids ! i)) = Inl x
      \<longrightarrow> (\<exists>j y. j < length ids \<and> outcome (hypercert_reply net j (ids ! j)) = Inl y
                 \<and> settled_at (hypercert_reply net j (ids ! j))
                     \<le> settled_at (hypercert_reply net i (ids ! i))
                 \<and> fst (fetchHypercerts net hyperboardId) =
                     \<lparr>data = None, error = Some (Rejected y)\<rparr>))
   \<and> (hyperboard_reply net hyperboardId = Inr res \<and> hypercertIds_of res = Some ids
       \<and> i < length ids \<and> outcome (hypercert_reply net i (ids ! i)) = Inl x
       \<and> (\<forall>k < length ids. k \<noteq> i
             \<longrightarrow> (\<exists>v. outcome (hypercert_reply net k (ids ! k)) = Inr v))
      \<longrightarrow> fst (fetchHypercerts net hyperboardId) = \<lparr>data = None, error = Some (Rejected x)\<rparr>)"
proof -
  have rejected: "\<exists>j y. j < length ids \<and> outcome (hypercert_reply net j (ids ! j)) = Inl y
                 \<and> settled_at (hypercert_reply net j (ids ! j))
                     \<le> settled_at (hypercert_reply net i (ids ! i))
                 \<and> fst (fetchHypercerts net hyperboardId) =
                     \<lparr>data = None, error = Some (Rejected y)\<rparr>"
    if h1: "hyperboard_reply net hyperboardId = Inr res"
      and h2: "hypercertIds_of res = Some ids"
      and h3: "i < length ids"
      and h4: "outcome (hypercert_reply net i (ids ! i)) = Inl x"
  proof -
    from some_rejected_first_rejection [OF h3 h4]
    obtain y t where fr: "first_rejection (request_all net ids) = Some (y, t)"
      by blast
    from first_rejection_index(1) [OF fr] obtain j where j: "j < length ids"
      "outcome (hypercert_reply net j (ids ! j)) = Inl y"
      "settled_at (hypercert_reply net j (ids ! j)) = t" by blast
    from first_rejection_index(2) [OF fr h3 h4]
    have "t \<le> settled_at (hypercert_reply net i (ids ! i))" .
    moreover from fetchHypercerts_try_rejected [OF h1 h2 fr]
    have "fst (fetchHypercerts net hyperboardId) = \<lparr>data = None, error = Some (Rejected y)\<rparr>"
      by (simp add: fetchHypercerts_def)
    ultimately show ?thesis using j by blast
  qed
  show ?thesis
  proof (intro conjI impI)
    assume "hyperboard_reply net hyperboardId = Inl x"
    then show "fst (fetchHypercerts net hyperboardId) = \<lparr>data = None, error = Some (Rejected x)\<rparr>"
      by (simp add: fetchHypercerts_def fetchHypercerts_try_def)
  next
    assume "hyperboard_reply net hyperboardId = Inr res \<and> hypercertIds_of res = None"
    then show "fst (fetchHypercerts net hyperboardId) =
            \<lparr>data = None, error = Some (Error ''No hypercert IDs found (status code: 404)'')\<rparr>"
      by (simp add: fetchHypercerts_def fetchHypercerts_try_def)
  next
    assume "hyperboard_reply net hyperboardId = Inr res \<and> hypercertIds_of res = Some ids
       \<and> i < length ids \<and> outcome (hypercert_reply net i (ids ! i)) = Inl x"
    then show "\<exists>j y. j < length ids \<and> outcome (hypercert_reply net j (ids ! j)) = Inl y
                 \<and> settled_at (hypercert_reply net j (ids ! j))
                     \<le> settled_at (hypercert_reply net i (ids ! i))
                 \<and> fst (fetchHypercerts net hyperboardId) =
                     \<lparr>data = None, error = Some (Rejected y)\<rparr>"
      using rejected by blast
  next
    assume h: "hyperboard_reply net hyperboardId = Inr res \<and> hypercertIds_of res = Some ids
       \<and> i < length ids \<and> outcome (hypercert_reply net i (ids ! i)) = Inl x
       \<and> (\<forall>k < length ids. k \<noteq> i
             \<longrightarrow> (\<exists>v. outcome (hypercert_reply net k (ids ! k)) = Inr v))"
    then obtain j y where j: "j < length ids"
      "outcome (hypercert_reply net j (ids ! j)) = Inl y"
      "fst (fetchHypercerts net hyperboardId) = \<lparr>data = None, error = Some (Rejected y)\<rparr>"
      using rejected by blast
    have "j = i"
    proof (rule ccontr)
      assume "j \<noteq> i"
      with h j(1) obtain v where "outcome (hypercert_reply net j (ids ! j)) = Inr v" by blast
      with j(2) show False by simp
    qed
    with h j(2) have "y = x" by simp
    with j(3) show "fst (fetchHypercerts net hyperboardId) =
        \<lparr>data = None, error = Some (Rejected x)\<rparr>"
      by simp
  qed
qed

text \<open>
  The theorem at a network that rejects the hyperboard query, at one without the
  hyperboard, at one where two requests are rejected, and at one where a single request is.
\<close>

theorem fetchHypercerts_failure_witness:
  "fst (fetchHypercerts unreachable_network (str ''board'')) =
     \<lparr>data = None, error = Some (Rejected 500)\<rparr>
   \<and> fst (fetchHypercerts missing_board_network (str ''board'')) =
     \<lparr>data = None, error = Some (Error ''No hypercert IDs found (status code: 404)'')\<rparr>
   \<and> fst (fetchHypercerts rejecting_network (str ''board'')) =
     \<lparr>data = None, error = Some (Rejected 502)\<rparr>
   \<and> fst (fetchHypercerts one_rejecting_network (str ''board'')) =
     \<lparr>data = None, error = Some (Rejected 503)\<rparr>"
proof -
  have 1: "hyperboard_reply unreachable_network (str ''board'') = Inl 500"
    by (simp add: unreachable_network_def)
  have 2: "hyperboard_reply missing_board_network (str ''board'') =
             Inr \<lparr>hyperboards = Some \<lparr>hyperboards_data = Some []\<rparr>\<rparr>
           \<and> hypercertIds_of \<lparr>hyperboards = Some \<lparr>hyperboards_data = Some []\<rparr>\<rparr> = None"
    by (simp add: missing_board_network_def hypercertIds_of_def)
  have 3: "hyperboard_reply rejecting_network (str ''board'') = Inr (response_with_entries three_ids)
           \<and> hypercertIds_of (response_with_entries three_ids) = Some three_ids
           \<and> 1 < length three_ids
           \<and> outcome (hypercert_reply rejecting_network 1 (three_ids ! 1)) = Inl 501"
    by (simp add: rejecting_network_def ids_of_response_with_entries three_ids_def)
  have 4: "hyperboard_reply one_rejecting_network (str ''board'') =
             Inr (response_with_entries three_ids)
           \<and> hypercertIds_of (response_with_entries three_ids) = Some three_ids
           \<and> 1 < length three_ids
           \<and> outcome (hypercert_reply one_rejecting_network 1 (three_ids ! 1)) = Inl 503
           \<and> (\<forall>k < length three_ids. k \<noteq> 1
                 \<longrightarrow> (\<exists>v. outcome (hypercert_reply one_rejecting_network k (three_ids ! k)) = Inr v))"
    by (simp add: one_rejecting_network_def ids_of_response_with_entries three_ids_def)
  from fetchHypercerts_failure [of unreachable_network "str ''board''" 500] 1
  have a: "fst (fetchHypercerts unreachable_network (str ''board'')) =
     \<lparr>data = None, error = Some (Rejected 500)\<rparr>"
    by blast
  from fetchHypercerts_failure [of missing_board_network "str ''board''" _
      "\<lparr>hyperboards = Some \<lparr>hyperboards_data = Some []\<rparr>\<rparr>"] 2
  have b: "fst (fetchHypercerts missing_board_network (str ''board'')) =
     \<lparr>data = None, error = Some (Error ''No hypercert IDs found (status code: 404)'')\<rparr>"
    by blast
  from fetchHypercerts_failure [of rejecting_network "str ''board''" 501
      "response_with_entries three_ids" three_ids 1] 3
  have "\<exists>y. fst (fetchHypercerts rejecting_network (str ''board'')) =
     \<lparr>data = None, error = Some (Rejected y)\<rparr>"
    by blast
  then have c: "fst (fetchHypercerts rejecting_network (str ''board'')) =
     \<lparr>data = None, error = Some (Rejected 502)\<rparr>"
    by (simp add: fetch_rejecting)
  from fetchHypercerts_failure [of one_rejecting_network "str ''board''" 503
      "response_with_entries three_ids" three_ids 1] 4
  have d: "fst (fetchHypercerts one_rejecting_network (str ''board'')) =
     \<lparr>data = None, error = Some (Rejected 503)\<rparr>"
    by blast
  from a b c d show ?thesis by simp
qed

text \<open>
  Claim C3. The envelope \<open>fetchHypercerts\<close> returns is either a success envelope, with a
  record list under \<open>data\<close> and no \<open>error\<close>, or a failure envelope, with an error under
  \<open>error\<close> and no \<open>data\<close>; it is never both and never neither.
\<close>

theorem fetchHypercerts_envelope:
  "(\<exists>records. fst (fetchHypercerts net hyperboardId) = \<lparr>data = Some records, error = None\<rparr>)
   \<noteq> (\<exists>e. fst (fetchHypercerts net hyperboardId) = \<lparr>data = None, error = Some e\<rparr>)"
proof (cases "fetchHypercerts_try net hyperboardId")
  case (Pair r events)
  then show ?thesis by (cases r) (simp_all add: fetchHypercerts_def)
qed

text \<open>
  Claim C4. When the hyperboard query succeeds, the first section of the first hyperboard
  exists and every per-identifier request is fulfilled, \<open>fetchHypercerts\<close> returns the
  success envelope whose records are, in the order of the entries' identifiers, the first
  record of each reply, the identifiers whose reply has no first record being left out.
  One request is issued per identifier, in that order. This holds for every entries list,
  the non-empty ones of the claim among them.
\<close>

theorem fetchHypercerts_success:
  assumes "hyperboard_reply net hyperboardId = Inr res"
    and "first_section res = Some s"
    and "ids = map entry_id (entries s)"
    and "\<forall>i < length ids. \<exists>response. outcome (hypercert_reply net i (ids ! i)) = Inr response"
  shows "fetchHypercerts net hyperboardId =
           (\<lparr>data = Some (map Some (surviving_records net ids)), error = None\<rparr>,
            Request_hyperboard hyperboardId # Console_log ids # map Request_hypercert ids)"
proof -
  from assms(2,3) have "hypercertIds_of res = Some ids"
    by (simp add: hypercertIds_of_first_section)
  from fetchHypercerts_try_fulfilled [OF assms(1) this all_fulfilled_no_rejection [OF assms(4)]]
  show ?thesis by (simp add: fetchHypercerts_def)
qed

text \<open>
  The theorem at three identifiers, the second without a record, the replies arriving in
  reverse order.
\<close>

theorem fetchHypercerts_success_witness:
  "fetchHypercerts three_records_network (str ''board'') =
     (\<lparr>data = Some [Some 10, Some 30], error = None\<rparr>,
      [Request_hyperboard (str ''board''), Console_log [str ''a'', str ''b'', str ''c''],
       Request_hypercert (str ''a''), Request_hypercert (str ''b''),
       Request_hypercert (str ''c'')])"
proof -
  have 1: "hyperboard_reply three_records_network (str ''board'') =
             Inr (response_with_entries three_ids)"
    by (simp add: three_records_network_def)
  have 2: "first_section (response_with_entries three_ids) =
             Some \<lparr>entries = map (\<lambda>i. \<lparr>entry_id = i\<rparr>) three_ids\<rparr>"
    by (rule first_section_response_with_entries)
  have 3: "three_ids = map entry_id (entries \<lparr>entries = map (\<lambda>i. \<lparr>entry_id = i\<rparr>) three_ids\<rparr>)"
    by (simp add: comp_def)
  have 4: "\<forall>i < length three_ids.
             \<exists>response. outcome (hypercert_reply three_records_network i (three_ids ! i)) = Inr response"
    by (simp add: three_records_network_def)
  have 5: "surviving_records three_records_network three_ids = [10, 30]"
    by (simp add: surviving_records_def three_records_network_def three_ids_def
        first_hypercert_def found_def three_ids_distinct)
  from fetchHypercerts_success [OF 1 2 3 4] 5 show ?thesis
    by (simp add: three_ids_def)
qed

section \<open>Properties of the submission schema\<close>

subsection \<open>Splitting and trimming\<close>

lemma length_str [simp]: "length (str s) = length s"
  by (simp add: str_def)

lemma str_empty: "str [] = []"
  by (simp add: str_def)

text \<open>
  Splitting loses nothing: the segments, joined again by the separator, are the string.
\<close>

lemma split_from_not_Nil: "split_from sep seg s \<noteq> []"
  by (induction sep seg s rule: split_from.induct) auto

lemma join_Cons: "ys \<noteq> [] \<Longrightarrow> join sep (x # ys) = x @ sep @ join sep ys"
  by (cases ys) simp_all

lemma join_split_from: "sep \<noteq> [] \<Longrightarrow> join sep (split_from sep seg s) = seg @ s"
proof (induction sep seg s rule: split_from.induct)
  case (1 sep seg)
  then show ?case by simp
next
  case (2 sep seg c cs)
  show ?case
  proof (cases "prefix sep (c # cs)")
    case True
    then have "sep @ drop (length sep) (c # cs) = c # cs"
      by (metis append_eq_conv_conj prefixE)
    with 2 True show ?thesis
      by (simp add: join_Cons split_from_not_Nil del: drop_Suc_Cons)
  next
    case False
    with 2 show ?thesis by simp
  qed
qed

lemma join_js_split: "sep \<noteq> [] \<Longrightarrow> join sep (js_split s sep) = s"
  by (simp add: js_split_def join_split_from)

text \<open>A string is empty after trimming exactly when it consists of white space.\<close>

lemma js_trim_Nil_iff: "js_trim s = [] \<longleftrightarrow> (\<forall>c \<in> set s. is_whitespace c)"
proof
  assume "js_trim s = []"
  then have a: "\<forall>c \<in> set (dropWhile is_whitespace s). is_whitespace c"
    by (simp add: js_trim_def dropWhile_eq_Nil_conv)
  have "dropWhile is_whitespace s = []"
  proof (cases "dropWhile is_whitespace s")
    case Nil
    then show ?thesis .
  next
    case (Cons x xs)
    then have "\<not> is_whitespace x" using hd_dropWhile [of is_whitespace s] by simp
    moreover from a Cons have "is_whitespace x" by simp
    ultimately show ?thesis by simp
  qed
  then show "\<forall>c \<in> set s. is_whitespace c"
    by (simp add: dropWhile_eq_Nil_conv)
next
  assume "\<forall>c \<in> set s. is_whitespace c"
  then show "js_trim s = []"
    by (auto simp: js_trim_def dest: set_dropWhileD)
qed

subsection \<open>The strings of the examples\<close>

lemma split_empty: "js_split [] (str '', '') = [[]]"
  by (simp add: js_split_def str_def)

lemma trim_empty: "js_trim [] = []"
  by (simp add: js_trim_def)

lemma not_address_empty: "\<not> isValidEthereumAddress []"
  by (simp add: isValidEthereumAddress_def str_def)

lemma contributors_check_empty: "\<not> contributors_check []"
  by (simp add: contributors_check_def split_empty trim_empty not_address_empty)

lemma split_two_space: "js_split two_contributors (str '', '') = [address_a, address_b]"
  by (simp add: js_split_def two_contributors_def address_a_def address_b_def str_def)

lemma split_two_comma: "js_split two_contributors (str '','') = [address_a, 0x20 # address_b]"
  by (simp add: js_split_def two_contributors_def address_a_def address_b_def str_def)

lemma address_a_valid: "isValidEthereumAddress address_a"
  by (simp add: isValidEthereumAddress_def address_a_def str_def is_hex_def)

lemma address_b_valid: "isValidEthereumAddress address_b"
  by (simp add: isValidEthereumAddress_def address_b_def str_def is_hex_def)

lemma trim_a: "js_trim address_a = address_a"
  by (simp add: js_trim_def address_a_def str_def is_whitespace_def)

lemma trim_b: "js_trim address_b = address_b" "js_trim (0x20 # address_b) = address_b"
  by (simp_all add: js_trim_def address_b_def str_def is_whitespace_def)

lemma tags_example: "tags_check (str ''impact, climate'')"
  by (simp add: tags_check_def js_split_def js_trim_def str_def is_whitespace_def)

lemma tags_empty_segment:
  "\<not> list_all (\<lambda>segment. js_trim segment \<noteq> []) (js_split (str ''impact,,climate'') (str '',''))"
  by (simp add: js_split_def js_trim_def str_def is_whitespace_def)

lemma contributors_two_check: "contributors_check two_contributors"
  by (simp add: contributors_check_def split_two_space trim_a trim_b address_a_valid
      address_b_valid)

lemma contributors_two_transform: "contributors_transform two_contributors = [address_a, address_b]"
  by (simp add: contributors_transform_def split_two_comma trim_a trim_b)

lemma example_urls:
  "is_https (str ''https://hypercerts.org'')"
  "is_https (str ''https://i.imgur.com/card.png'')"
  "is_https (str ''https://i.imgur.com/hypercert-logo.png'')"
  "is_https (str ''https://i.imgur.com/hypercert-banner.png'')"
  by (simp_all add: is_https_def str_def)

subsection \<open>The validation library\<close>

lemma issues_at_simps [simp]:
  "issues_at q [] = []"
  "issues_at q (i # issues) = (if path i = q then i # issues_at q issues else issues_at q issues)"
  "issues_at q (xs @ ys) = issues_at q xs @ issues_at q ys"
  by (simp_all add: issues_at_def)

lemma issues_at_same:
  "\<forall>i \<in> set issues. path i = p \<Longrightarrow> issues_at q issues = (if p = q then issues else [])"
  by (induction issues) auto

lemma object_key_snd [simp]: "snd (object_key acc r) = snd acc @ snd r"
  by (simp add: object_key_def)

lemma object_key_is_VALID [simp]:
  "is_VALID (fst (object_key acc r)) \<longleftrightarrow> is_VALID (fst acc) \<and> is_VALID (fst r)"
  by (cases "fst acc"; cases "fst r") (simp_all add: object_key_def)

lemma object_key_VALID:
  "fst (object_key acc r) = VALID v \<longleftrightarrow> (\<exists>f x. fst acc = VALID f \<and> fst r = VALID x \<and> v = f x)"
  by (cases "fst acc"; cases "fst r") (auto simp: object_key_def)

lemma object_begin_simps [simp]: "fst (object_begin f) = VALID f" "snd (object_begin f) = []"
  by (simp_all add: object_begin_def)

lemma safeParse_Inr_iff: "safeParse schema input = Inr v \<longleftrightarrow> fst (schema [] input) = VALID v"
  by (cases "schema [] input"; cases "fst (schema [] input)") (auto simp: safeParse_def)

lemma safeParse_failure:
  "\<not> is_VALID (fst (schema [] input)) \<Longrightarrow> safeParse schema input = Inl (snd (schema [] input))"
  by (cases "schema [] input"; cases "fst (schema [] input)") (auto simp: safeParse_def)

lemma check_issues_path: "i \<in> set (check_issues is_url p v c) \<Longrightarrow> path i = p"
  by (cases c) (auto split: if_splits)

lemma z_string_path: "i \<in> set (snd (z_string is_url checks p input)) \<Longrightarrow> path i = p"
  by (cases input) (auto simp: z_string_def Let_def dest: check_issues_path)

lemma z_date_path: "i \<in> set (snd (z_date p input)) \<Longrightarrow> path i = p"
  by (auto simp: z_date_def split: option.splits js_date.splits)

lemma z_boolean_path: "i \<in> set (snd (z_boolean p input)) \<Longrightarrow> path i = p"
  by (auto simp: z_boolean_def split: option.splits)

lemma z_date_VALID: "fst (z_date p x) = VALID v \<Longrightarrow> \<exists>t. v = Date t"
  by (auto simp: z_date_def split: option.splits js_date.splits)

lemma issues_at_z_string [simp]:
  "issues_at q (snd (z_string is_url checks p input)) =
     (if p = q then snd (z_string is_url checks p input) else [])"
  by (rule issues_at_same) (blast dest: z_string_path)

lemma issues_at_z_date [simp]:
  "issues_at q (snd (z_date p input)) = (if p = q then snd (z_date p input) else [])"
  by (rule issues_at_same) (blast dest: z_date_path)

lemma issues_at_z_boolean [simp]:
  "issues_at q (snd (z_boolean p input)) = (if p = q then snd (z_boolean p input) else [])"
  by (rule issues_at_same) (blast dest: z_boolean_path)

lemma z_string_no_checks [simp]: "z_string is_url [] p (Some v) = (VALID v, [])"
  by (simp add: z_string_def)

lemma refine_snd:
  "snd (refine schema check path_option msg p input) =
     snd (schema p input) @
       (case fst (schema p input) of
          INVALID \<Rightarrow> []
        | VALID v \<Rightarrow>
            if check v then []
            else [\<lparr>code = custom, path = p @ path_option, message = msg\<rparr>]
        | DIRTY v \<Rightarrow>
            if check v then []
            else [\<lparr>code = custom, path = p @ path_option, message = msg\<rparr>])"
  by (cases "schema p input"; cases "fst (schema p input)") (auto simp: refine_def)

lemma refine_VALID:
  "fst (refine schema check path_option msg p input) = VALID v \<longleftrightarrow>
     fst (schema p input) = VALID v \<and> check v"
  by (cases "schema p input"; cases "fst (schema p input)") (auto simp: refine_def)

subsection \<open>The keys of the schema\<close>

lemma title_example:
  "title_schema is_url p (Some (str ''Edge Esmeralda Hypercert'')) =
     (VALID (str ''Edge Esmeralda Hypercert''), [])"
  by (simp add: title_schema_def z_string_def str_def)

lemma description_ok:
  "10 \<le> length s \<Longrightarrow> length s \<le> 500 \<Longrightarrow> description_schema is_url p (Some s) = (VALID s, [])"
  by (simp add: description_schema_def z_string_def)

lemma url_ok:
  "is_url u \<Longrightarrow> link_schema is_url p (Some u) = (VALID u, [])"
  "is_url u \<Longrightarrow> cardImage_schema is_url p (Some u) = (VALID u, [])"
  "is_url u \<Longrightarrow> logo_schema is_url p (Some u) = (VALID u, [])"
  "is_url u \<Longrightarrow> banner_schema is_url p (Some u) = (VALID u, [])"
  by (simp_all add: link_schema_def cardImage_schema_def logo_schema_def banner_schema_def
      z_string_def)

lemma tags_schema_Some:
  "tags_schema is_url p (Some val) =
     (if tags_check val then (VALID val, [])
      else (DIRTY val,
            [\<lparr>code = custom, path = p,
              message = ''Tags must must not be empty, Multiple tags must be separated by commas''\<rparr>]))"
  by (simp add: tags_schema_def refine_def)

lemma tags_ok: "tags_check val \<Longrightarrow> tags_schema is_url p (Some val) = (VALID val, [])"
  by (simp add: tags_schema_Some)

lemma projectDates_ok:
  "a \<le> b \<Longrightarrow>
   projectDates_schema p (Some \<lparr>draft_from = Some (Date a), draft_to = Some (Date b)\<rparr>)
     = (VALID \<lparr>range_from = Date a, range_to = Date b\<rparr>, [])"
  by (simp add: projectDates_schema_def refine_def projectDates_object_def object_key_def
      object_begin_def z_date_def)

lemma projectDates_reversed:
  "t < f \<Longrightarrow>
   projectDates_schema p (Some \<lparr>draft_from = Some (Date f), draft_to = Some (Date t)\<rparr>)
     = (DIRTY \<lparr>range_from = Date f, range_to = Date t\<rparr>,
        [\<lparr>code = custom, path = p @ [''projectDates''],
          message = ''From date must be before to date''\<rparr>])"
  by (simp add: projectDates_schema_def refine_def projectDates_object_def object_key_def
      object_begin_def z_date_def)

lemma projectDates_VALID:
  assumes "fst (projectDates_schema p x) = VALID r"
  shows "\<exists>a b. r = \<lparr>range_from = Date a, range_to = Date b\<rparr> \<and> a \<le> b"
proof -
  from assms have ob: "fst (projectDates_object p x) = VALID r"
    and le: "date_le (range_from r) (range_to r)"
    by (simp_all add: projectDates_schema_def refine_VALID)
  from ob obtain dr where x: "x = Some dr" by (cases x) (simp_all add: projectDates_object_def)
  from ob x obtain f t where "fst (z_date (p @ [''from'']) (draft_from dr)) = VALID f"
    "fst (z_date (p @ [''to'']) (draft_to dr)) = VALID t" "r = \<lparr>range_from = f, range_to = t\<rparr>"
    by (auto simp: projectDates_object_def object_key_VALID)
  with le show ?thesis by (auto dest!: z_date_VALID)
qed

lemma workStartDate_ok:
  "x \<noteq> Some Invalid_Date \<Longrightarrow>
     workStartDate_schema p x = (VALID (case x of None \<Rightarrow> Date 1717286400000 | Some v \<Rightarrow> v), [])"
  by (cases x; cases "the x") (simp_all add: workStartDate_schema_def z_default_def z_date_def)

lemma workEndDate_ok:
  "x \<noteq> Some Invalid_Date \<Longrightarrow>
     workEndDate_schema p x = (VALID (case x of None \<Rightarrow> Date 1719705600000 | Some v \<Rightarrow> v), [])"
  by (cases x; cases "the x") (simp_all add: workEndDate_schema_def z_default_def z_date_def)

lemma contributors_schema_Some:
  "contributors_schema is_url p (Some v) =
     (if contributors_check v then (VALID (contributors_transform v), [])
      else (DIRTY (contributors_transform v),
            [\<lparr>code = custom, path = p,
              message = ''Each value must be a valid Ethereum address separated by a comma and a space.''\<rparr>]))"
  by (simp add: contributors_schema_def transform_def refine_def)

lemma contributors_ok:
  "contributors_check v \<Longrightarrow>
     contributors_schema is_url p (Some v) = (VALID (contributors_transform v), [])"
  by (simp add: contributors_schema_Some)

lemma tags_schema_path: "i \<in> set (snd (tags_schema is_url p x)) \<Longrightarrow> path i = p"
  by (cases x)
    (auto simp: tags_schema_Some split: if_splits, simp add: tags_schema_def refine_def z_string_def)

lemma contributors_schema_path: "i \<in> set (snd (contributors_schema is_url p x)) \<Longrightarrow> path i = p"
  by (cases x)
    (auto simp: contributors_schema_Some split: if_splits,
      simp add: contributors_schema_def transform_def refine_def z_string_def)

lemma projectDates_schema_path:
  "i \<in> set (snd (projectDates_schema p x)) \<Longrightarrow>
     path i = p \<or> path i = p @ [''from''] \<or> path i = p @ [''to'']
     \<or> path i = p @ [''projectDates'']"
proof (cases x)
  case None
  assume "i \<in> set (snd (projectDates_schema p x))"
  with None show ?thesis
    by (simp add: projectDates_schema_def refine_def projectDates_object_def)
next
  case (Some r)
  assume "i \<in> set (snd (projectDates_schema p x))"
  then have "i \<in> set (snd (projectDates_object p x))
      \<or> i = \<lparr>code = custom, path = p @ [''projectDates''],
              message = ''From date must be before to date''\<rparr>"
    by (auto simp: projectDates_schema_def refine_snd split: parse_status.splits if_splits)
  with Some show ?thesis
    by (auto simp: projectDates_object_def dest: z_date_path)
qed

lemma issues_at_tags_schema [simp]:
  "issues_at q (snd (tags_schema is_url p x)) =
     (if p = q then snd (tags_schema is_url p x) else [])"
  by (rule issues_at_same) (blast dest: tags_schema_path)

lemma issues_at_contributors_schema [simp]:
  "issues_at q (snd (contributors_schema is_url p x)) =
     (if p = q then snd (contributors_schema is_url p x) else [])"
  by (rule issues_at_same) (blast dest: contributors_schema_path)

lemma issues_at_projectDates_other:
  "q \<noteq> p \<Longrightarrow> q \<noteq> p @ [''from''] \<Longrightarrow> q \<noteq> p @ [''to''] \<Longrightarrow> q \<noteq> p @ [''projectDates''] \<Longrightarrow>
     issues_at q (snd (projectDates_schema p x)) = []"
  unfolding issues_at_def filter_empty_conv using projectDates_schema_path by blast

subsection \<open>The object\<close>

lemmas string_schemas =
  title_schema_def description_schema_def link_schema_def cardImage_schema_def logo_schema_def
  banner_schema_def workStartDate_schema_def workEndDate_schema_def z_default_def

lemmas example_fields =
  title_example description_ok url_ok example_urls tags_ok tags_example projectDates_ok
  workStartDate_ok workEndDate_ok contributors_ok contributors_two_check
  contributors_two_transform z_boolean_def object_key_def object_begin_def

lemma HypercertMintSchema_snd:
  "snd (HypercertMintSchema is_url p d) =
     snd (title_schema is_url (p @ [''title'']) (draft_title d))
     @ snd (description_schema is_url (p @ [''description'']) (draft_description d))
     @ snd (link_schema is_url (p @ [''link'']) (draft_link d))
     @ snd (cardImage_schema is_url (p @ [''cardImage'']) (draft_cardImage d))
     @ snd (logo_schema is_url (p @ [''logo'']) (draft_logo d))
     @ snd (banner_schema is_url (p @ [''banner'']) (draft_banner d))
     @ snd (tags_schema is_url (p @ [''tags'']) (draft_tags d))
     @ snd (projectDates_schema (p @ [''projectDates'']) (draft_projectDates d))
     @ snd (workStartDate_schema (p @ [''workStartDate'']) (draft_workStartDate d))
     @ snd (workEndDate_schema (p @ [''workEndDate'']) (draft_workEndDate d))
     @ snd (contributors_schema is_url (p @ [''contributors'']) (draft_contributors d))
     @ snd (z_boolean (p @ [''acceptTerms'']) (draft_acceptTerms d))
     @ snd (z_boolean (p @ [''confirmContributorsPermission''])
          (draft_confirmContributorsPermission d))"
  by (simp add: HypercertMintSchema_def)

lemma HypercertMintSchema_is_VALID:
  "is_VALID (fst (HypercertMintSchema is_url p d)) \<longleftrightarrow>
     is_VALID (fst (title_schema is_url (p @ [''title'']) (draft_title d)))
     \<and> is_VALID (fst (description_schema is_url (p @ [''description'']) (draft_description d)))
     \<and> is_VALID (fst (link_schema is_url (p @ [''link'']) (draft_link d)))
     \<and> is_VALID (fst (cardImage_schema is_url (p @ [''cardImage'']) (draft_cardImage d)))
     \<and> is_VALID (fst (logo_schema is_url (p @ [''logo'']) (draft_logo d)))
     \<and> is_VALID (fst (banner_schema is_url (p @ [''banner'']) (draft_banner d)))
     \<and> is_VALID (fst (tags_schema is_url (p @ [''tags'']) (draft_tags d)))
     \<and> is_VALID (fst (projectDates_schema (p @ [''projectDates'']) (draft_projectDates d)))
     \<and> is_VALID (fst (workStartDate_schema (p @ [''workStartDate'']) (draft_workStartDate d)))
     \<and> is_VALID (fst (workEndDate_schema (p @ [''workEndDate'']) (draft_workEndDate d)))
     \<and> is_VALID (fst (contributors_schema is_url (p @ [''contributors''])
          (draft_contributors d)))
     \<and> is_VALID (fst (z_boolean (p @ [''acceptTerms'']) (draft_acceptTerms d)))
     \<and> is_VALID (fst (z_boolean (p @ [''confirmContributorsPermission''])
          (draft_confirmContributorsPermission d)))"
  by (simp add: HypercertMintSchema_def)

lemma HypercertMintSchema_VALID:
  "fst (HypercertMintSchema is_url p d) = VALID v \<Longrightarrow>
     fst (title_schema is_url (p @ [''title'']) (draft_title d)) = VALID (title v)
     \<and> fst (description_schema is_url (p @ [''description'']) (draft_description d))
         = VALID (description v)
     \<and> fst (link_schema is_url (p @ [''link'']) (draft_link d)) = VALID (link v)
     \<and> fst (cardImage_schema is_url (p @ [''cardImage'']) (draft_cardImage d))
         = VALID (cardImage v)
     \<and> fst (projectDates_schema (p @ [''projectDates'']) (draft_projectDates d))
         = VALID (projectDates v)
     \<and> fst (contributors_schema is_url (p @ [''contributors'']) (draft_contributors d))
         = VALID (contributors v)"
  unfolding HypercertMintSchema_def object_key_VALID object_begin_simps
  by auto

lemma issues_at_tags:
  "issues_at [''tags''] (snd (HypercertMintSchema is_url [] d)) =
     snd (tags_schema is_url [''tags''] (draft_tags d))"
  by (simp add: HypercertMintSchema_snd string_schemas issues_at_projectDates_other)

lemma issues_at_contributors:
  "issues_at [''contributors''] (snd (HypercertMintSchema is_url [] d)) =
     snd (contributors_schema is_url [''contributors''] (draft_contributors d))"
  by (simp add: HypercertMintSchema_snd string_schemas issues_at_projectDates_other)

lemma issues_at_projectDates:
  "issues_at [''projectDates''] (snd (HypercertMintSchema is_url [] d)) =
     issues_at [''projectDates'']
       (snd (projectDates_schema [''projectDates''] (draft_projectDates d)))"
  by (simp add: HypercertMintSchema_snd string_schemas)

lemma issues_at_projectDates_nested:
  "issues_at [''projectDates'', ''projectDates''] (snd (HypercertMintSchema is_url [] d)) =
     issues_at [''projectDates'', ''projectDates'']
       (snd (projectDates_schema [''projectDates''] (draft_projectDates d)))"
  by (simp add: HypercertMintSchema_snd string_schemas)

lemma date_le_cases: "date_le f t \<Longrightarrow> \<exists>a b. f = Date a \<and> t = Date b \<and> a \<le> b"
  by (cases f; cases t) simp_all

lemma range_eqI:
  "draft_from r = Some f \<Longrightarrow> draft_to r = Some t \<Longrightarrow> r = \<lparr>draft_from = Some f, draft_to = Some t\<rparr>"
  by (cases r) simp

lemma validate_example: "validate is_https example_draft = Inr example_values"
  unfolding validate_def safeParse_def HypercertMintSchema_def example_draft_def example_values_def
  by (simp add: example_fields)

text \<open>
  Whatever the other fields are, a range whose dates are exchanged makes validation fail.
  Its issue is reported two keys deep, at \<open>projectDates.projectDates\<close>, because the \<open>path\<close>
  option of the refinement is appended to the path of the key; nothing is reported at
  \<open>projectDates\<close> itself.
\<close>

lemma reversed_projectDates_issue:
  assumes "draft_projectDates d = Some \<lparr>draft_from = Some (Date f), draft_to = Some (Date t)\<rparr>"
    and "t < f"
  shows "\<exists>issues. validate is_url d = Inl issues
           \<and> issues_at [''projectDates''] issues = []
           \<and> issues_at [''projectDates'', ''projectDates''] issues =
               [\<lparr>code = custom, path = [''projectDates'', ''projectDates''],
                 message = ''From date must be before to date''\<rparr>]"
proof -
  have "\<not> is_VALID (fst (HypercertMintSchema is_url [] d))"
    by (simp add: HypercertMintSchema_is_VALID assms projectDates_reversed)
  then have "validate is_url d = Inl (snd (HypercertMintSchema is_url [] d))"
    by (simp add: validate_def safeParse_failure)
  then show ?thesis
    by (simp add: issues_at_projectDates issues_at_projectDates_nested assms
        projectDates_reversed)
qed

subsection \<open>The claims\<close>

text \<open>
  Claim C5, as the code has it. A draft as the round trip describes it validates when,
  in addition, its description has at most 500 characters, its work dates are absent or
  valid dates, and its two acknowledgements are given. The validated contributors are then
  the two addresses, in the order of the input, each well formed and trimmed.
\<close>

theorem round_trip_validates:
  assumes "round_trip_draft is_url d"
    and "case draft_description d of None \<Rightarrow> False | Some s \<Rightarrow> length s \<le> 500"
    and "draft_workStartDate d \<noteq> Some Invalid_Date"
    and "draft_workEndDate d \<noteq> Some Invalid_Date"
    and "draft_acceptTerms d \<noteq> None"
    and "draft_confirmContributorsPermission d \<noteq> None"
  shows "\<exists>values. validate is_url d = Inr values
           \<and> contributors values = [address_a, address_b]
           \<and> list_all isValidEthereumAddress (contributors values)
           \<and> map js_trim (contributors values) = contributors values"
proof -
  from assms(1,2) obtain s
    where s: "draft_description d = Some s" "10 \<le> length s" "length s \<le> 500"
    by (auto simp: round_trip_draft_def split: option.splits)
  from assms(1) obtain l c lo b where urls: "draft_link d = Some l" "is_url l"
    "draft_cardImage d = Some c" "is_url c" "draft_logo d = Some lo" "is_url lo"
    "draft_banner d = Some b" "is_url b"
    by (auto simp: round_trip_draft_def split: option.splits)
  from assms(1) obtain r f t where r: "draft_projectDates d = Some r" "draft_from r = Some f"
    "draft_to r = Some t" "date_le f t"
    by (auto simp: round_trip_draft_def split: option.splits)
  from date_le_cases [OF r(4)] obtain m n where mn: "f = Date m" "t = Date n" "m \<le> n" by blast
  from r(2,3) mn have r': "r = \<lparr>draft_from = Some (Date m), draft_to = Some (Date n)\<rparr>"
    by (simp add: range_eqI)
  from assms(1) have t: "draft_title d = Some (str ''Edge Esmeralda Hypercert'')"
    and tg: "draft_tags d = Some (str ''impact, climate'')"
    and co: "draft_contributors d = Some two_contributors"
    by (simp_all add: round_trip_draft_def)
  from assms(5,6) obtain a cc where fl: "draft_acceptTerms d = Some a"
    "draft_confirmContributorsPermission d = Some cc" by auto
  have "fst (HypercertMintSchema is_url [] d) =
     VALID \<lparr>title = str ''Edge Esmeralda Hypercert'', description = s, link = l, cardImage = c,
            logo = lo, banner = b, tags = str ''impact, climate'',
            projectDates = \<lparr>range_from = Date m, range_to = Date n\<rparr>,
            workStartDate =
              (case draft_workStartDate d of None \<Rightarrow> Date 1717286400000 | Some v \<Rightarrow> v),
            workEndDate =
              (case draft_workEndDate d of None \<Rightarrow> Date 1719705600000 | Some v \<Rightarrow> v),
            contributors = [address_a, address_b],
            acceptTerms = a, confirmContributorsPermission = cc\<rparr>"
    unfolding HypercertMintSchema_def
    by (simp add: t s urls r(1) r' mn(3) tg co fl title_example description_ok url_ok
        tags_ok tags_example projectDates_ok workStartDate_ok [OF assms(3)]
        workEndDate_ok [OF assms(4)] contributors_ok contributors_two_check
        contributors_two_transform z_boolean_def object_key_def object_begin_def)
  then show ?thesis
    by (simp add: validate_def safeParse_Inr_iff address_a_valid address_b_valid trim_a trim_b)
qed

text \<open>The theorem at the example draft.\<close>

theorem round_trip_validates_witness:
  "round_trip_draft is_https example_draft
   \<and> (\<exists>values. validate is_https example_draft = Inr values
        \<and> contributors values = [address_a, address_b]
        \<and> list_all isValidEthereumAddress (contributors values)
        \<and> map js_trim (contributors values) = contributors values)"
proof -
  have 1: "round_trip_draft is_https example_draft"
    by (simp add: round_trip_draft_def example_draft_def example_urls)
  have 2: "case draft_description example_draft of None \<Rightarrow> False | Some s \<Rightarrow> length s \<le> 500"
    by (simp add: example_draft_def)
  have 3: "draft_workStartDate example_draft \<noteq> Some Invalid_Date"
    "draft_workEndDate example_draft \<noteq> Some Invalid_Date"
    "draft_acceptTerms example_draft \<noteq> None"
    "draft_confirmContributorsPermission example_draft \<noteq> None"
    by (simp_all add: example_draft_def)
  from 1 round_trip_validates [OF 1 2 3] show ?thesis by simp
qed

text \<open>
  A draft that meets every condition of the round trip and whose description has 501
  characters does not validate: the upper bound of the description is checked as well.
\<close>

theorem round_trip_long_description_counterexample:
  "round_trip_draft is_https long_description_draft
   \<and> validate is_https long_description_draft =
       Inl [\<lparr>code = too_big, path = [''description''],
             message = ''Description must be less than 500 characters''\<rparr>]"
proof
  show "round_trip_draft is_https long_description_draft"
    by (simp add: round_trip_draft_def long_description_draft_def example_draft_def example_urls)
  have "description_schema is_https [''description''] (Some (replicate 501 0x61)) =
     (DIRTY (replicate 501 0x61),
      [\<lparr>code = too_big, path = [''description''],
        message = ''Description must be less than 500 characters''\<rparr>])"
    by (simp add: description_schema_def z_string_def)
  then show "validate is_https long_description_draft =
       Inl [\<lparr>code = too_big, path = [''description''],
             message = ''Description must be less than 500 characters''\<rparr>]"
    unfolding validate_def safeParse_def HypercertMintSchema_def long_description_draft_def
      example_draft_def
    by (simp add: example_fields)
qed

text \<open>
  Claim C6, at a draft that is valid but for its project dates, which are exchanged.
  Validation fails, and its only issue has the path \<open>projectDates.projectDates\<close>, not the
  path \<open>projectDates\<close> of the field.
\<close>

theorem reversed_dates_issue_path:
  "validate is_https reversed_dates_draft =
     Inl [\<lparr>code = custom, path = [''projectDates'', ''projectDates''],
           message = ''From date must be before to date''\<rparr>]"
  unfolding validate_def safeParse_def HypercertMintSchema_def reversed_dates_draft_def
    example_draft_def
  by (simp add: example_fields projectDates_reversed)

text \<open>
  Claim C7. No issue is reported for the tags of a draft exactly when every segment of
  the tags string between commas is non-empty after trimming, and the same condition
  decides whether the tags key is valid. A tags string with a segment that is empty after
  trimming makes the validation of the draft fail, with the tags issue.
\<close>

theorem tags_accepted_iff:
  assumes "draft_tags d = Some val"
  shows "(issues_at [''tags''] (snd (HypercertMintSchema is_url [] d)) = [])
           = list_all (\<lambda>segment. js_trim segment \<noteq> []) (js_split val (str '',''))
       \<and> is_VALID (fst (tags_schema is_url [''tags''] (draft_tags d)))
           = list_all (\<lambda>segment. js_trim segment \<noteq> []) (js_split val (str '',''))
       \<and> (\<not> list_all (\<lambda>segment. js_trim segment \<noteq> []) (js_split val (str '',''))
          \<longrightarrow> (\<exists>issues. validate is_url d = Inl issues
                 \<and> issues_at [''tags''] issues =
                     [\<lparr>code = custom, path = [''tags''],
                       message = ''Tags must must not be empty, Multiple tags must be separated by commas''\<rparr>]))"
proof (intro conjI impI)
  show "(issues_at [''tags''] (snd (HypercertMintSchema is_url [] d)) = [])
           = list_all (\<lambda>segment. js_trim segment \<noteq> []) (js_split val (str '',''))"
    by (simp add: issues_at_tags assms tags_schema_Some tags_check_def)
  show "is_VALID (fst (tags_schema is_url [''tags''] (draft_tags d)))
           = list_all (\<lambda>segment. js_trim segment \<noteq> []) (js_split val (str '',''))"
    by (simp add: assms tags_schema_Some tags_check_def)
next
  assume "\<not> list_all (\<lambda>segment. js_trim segment \<noteq> []) (js_split val (str '',''))"
  then have bad: "\<not> tags_check val" by (simp add: tags_check_def)
  then have "\<not> is_VALID (fst (HypercertMintSchema is_url [] d))"
    by (simp add: HypercertMintSchema_is_VALID assms tags_schema_Some)
  then have "validate is_url d = Inl (snd (HypercertMintSchema is_url [] d))"
    by (simp add: validate_def safeParse_failure)
  moreover have "issues_at [''tags''] (snd (HypercertMintSchema is_url [] d)) =
      [\<lparr>code = custom, path = [''tags''],
        message = ''Tags must must not be empty, Multiple tags must be separated by commas''\<rparr>]"
    using bad by (simp add: issues_at_tags assms tags_schema_Some)
  ultimately show "\<exists>issues. validate is_url d = Inl issues
                 \<and> issues_at [''tags''] issues =
                     [\<lparr>code = custom, path = [''tags''],
                       message = ''Tags must must not be empty, Multiple tags must be separated by commas''\<rparr>]"
    by simp
qed

text \<open>The theorem at the tags \<open>impact, climate\<close> and at the tags \<open>impact,,climate\<close>.\<close>

theorem tags_accepted_iff_witness:
  "issues_at [''tags''] (snd (HypercertMintSchema is_https [] example_draft)) = []
   \<and> (\<exists>issues. validate is_https empty_segment_draft = Inl issues
        \<and> issues_at [''tags''] issues =
            [\<lparr>code = custom, path = [''tags''],
              message = ''Tags must must not be empty, Multiple tags must be separated by commas''\<rparr>])"
proof -
  have 1: "draft_tags example_draft = Some (str ''impact, climate'')"
    by (simp add: example_draft_def)
  have 2: "draft_tags empty_segment_draft = Some (str ''impact,,climate'')"
    by (simp add: empty_segment_draft_def)
  have 3: "list_all (\<lambda>segment. js_trim segment \<noteq> []) (js_split (str ''impact, climate'') (str '',''))"
    using tags_example by (simp add: tags_check_def)
  from tags_accepted_iff [OF 1, of is_https] tags_accepted_iff [OF 2, of is_https] 3
    tags_empty_segment
  show ?thesis by blast
qed

text \<open>
  Claim C8. For the values of a draft that validated, the project dates are valid dates
  and \<open>onSubmit\<close> hands to the formatter the object whose name, description, image and
  external link are the validated title, description, card image and link; whose version,
  impact scope, rights and exclusion lists are the constants of the source; whose work and
  impact time frames both start at the validated from date and end at the validated to
  date, in seconds since the epoch; and whose contributors are the validated contributors.
  The seconds are the exact quotient of the milliseconds by 1000.
\<close>

theorem onSubmit_metadata:
  assumes "validate is_url d = Inr values"
  shows "\<exists>from_ms to_ms.
           projectDates values = \<lparr>range_from = Date from_ms, range_to = Date to_ms\<rparr>
           \<and> onSubmit formatHypercertData badges values =
               formatHypercertData
                 \<lparr>arg_name = title values,
                  arg_description = description values,
                  arg_image = cardImage values,
                  arg_external_url = link values,
                  arg_version = str ''2.0'',
                  arg_properties = [],
                  arg_impactScope = [str ''all''],
                  arg_excludedImpactScope = [],
                  arg_workScope = badges,
                  arg_excludedWorkScope = [],
                  arg_rights = [str ''Public Display''],
                  arg_excludedRights = [],
                  arg_workTimeframeStart = Num (of_int from_ms / 1000),
                  arg_workTimeframeEnd = Num (of_int to_ms / 1000),
                  arg_impactTimeframeStart = Num (of_int from_ms / 1000),
                  arg_impactTimeframeEnd = Num (of_int to_ms / 1000),
                  arg_contributors = contributors values\<rparr>"
proof -
  from assms have "fst (HypercertMintSchema is_url [] d) = VALID values"
    by (simp add: validate_def safeParse_Inr_iff)
  from HypercertMintSchema_VALID [OF this]
  have "fst (projectDates_schema ([] @ [''projectDates'']) (draft_projectDates d))
          = VALID (projectDates values)"
    by blast
  from projectDates_VALID [OF this] obtain a b
    where "projectDates values = \<lparr>range_from = Date a, range_to = Date b\<rparr>" by blast
  then show ?thesis
    by (simp add: onSubmit_def metadata_argument_def)
qed

text \<open>The theorem at the example draft, the formatter being the identity.\<close>

theorem onSubmit_metadata_witness:
  "validate is_https example_draft = Inr example_values
   \<and> onSubmit (\<lambda>argument. argument) [str ''Edge Esmeralda'', str ''Edge City''] example_values =
       \<lparr>arg_name = str ''Edge Esmeralda Hypercert'',
        arg_description = str ''Ten chars or more'',
        arg_image = str ''https://i.imgur.com/card.png'',
        arg_external_url = str ''https://hypercerts.org'',
        arg_version = str ''2.0'',
        arg_properties = [],
        arg_impactScope = [str ''all''],
        arg_excludedImpactScope = [],
        arg_workScope = [str ''Edge Esmeralda'', str ''Edge City''],
        arg_excludedWorkScope = [],
        arg_rights = [str ''Public Display''],
        arg_excludedRights = [],
        arg_workTimeframeStart = Num 1717286400,
        arg_workTimeframeEnd = Num 1719705600,
        arg_impactTimeframeStart = Num 1717286400,
        arg_impactTimeframeEnd = Num 1719705600,
        arg_contributors = [address_a, address_b]\<rparr>"
proof -
  have v: "validate is_https example_draft = Inr example_values"
    by (rule validate_example)
  from onSubmit_metadata [OF v, of "\<lambda>argument. argument" "[str ''Edge Esmeralda'', str ''Edge City'']"]
  show ?thesis using v by (auto simp: example_values_def)
qed

text \<open>
  Claim C9. A draft whose contributors are the empty string fails validation on the
  contributors: the empty string splits into the single empty segment, the empty segment
  is no address, and the issue of the contributors is reported, whatever the other fields.
\<close>

theorem empty_contributors_rejected:
  assumes "draft_contributors d = Some (str '''')"
  shows "js_split (str '''') (str '', '') = [str '''']
       \<and> \<not> isValidEthereumAddress (js_trim (str ''''))
       \<and> (\<exists>issues. validate is_url d = Inl issues
            \<and> issues_at [''contributors''] issues =
                [\<lparr>code = custom, path = [''contributors''],
                  message = ''Each value must be a valid Ethereum address separated by a comma and a space.''\<rparr>])"
proof (intro conjI)
  show "js_split (str '''') (str '', '') = [str '''']"
    by (simp add: str_empty split_empty)
  show "\<not> isValidEthereumAddress (js_trim (str ''''))"
    by (simp add: str_empty trim_empty not_address_empty)
  from assms have c: "draft_contributors d = Some []" by (simp add: str_empty)
  have "\<not> is_VALID (fst (HypercertMintSchema is_url [] d))"
    by (simp add: HypercertMintSchema_is_VALID c contributors_schema_Some contributors_check_empty)
  then have "validate is_url d = Inl (snd (HypercertMintSchema is_url [] d))"
    by (simp add: validate_def safeParse_failure)
  moreover have "issues_at [''contributors''] (snd (HypercertMintSchema is_url [] d)) =
      [\<lparr>code = custom, path = [''contributors''],
        message = ''Each value must be a valid Ethereum address separated by a comma and a space.''\<rparr>]"
    by (simp add: issues_at_contributors c contributors_schema_Some contributors_check_empty)
  ultimately show "\<exists>issues. validate is_url d = Inl issues
            \<and> issues_at [''contributors''] issues =
                [\<lparr>code = custom, path = [''contributors''],
                  message = ''Each value must be a valid Ethereum address separated by a comma and a space.''\<rparr>]"
    by simp
qed

text \<open>The theorem at the example draft with its contributors emptied.\<close>

theorem empty_contributors_rejected_witness:
  "validate is_https no_contributors_draft =
     Inl [\<lparr>code = custom, path = [''contributors''],
           message = ''Each value must be a valid Ethereum address separated by a comma and a space.''\<rparr>]"
proof -
  have 1: "draft_contributors no_contributors_draft = Some (str '''')"
    by (simp add: no_contributors_draft_def)
  have 2: "validate is_https no_contributors_draft =
     Inl [\<lparr>code = custom, path = [''contributors''],
           message = ''Each value must be a valid Ethereum address separated by a comma and a space.''\<rparr>]"
    unfolding validate_def safeParse_def HypercertMintSchema_def no_contributors_draft_def
      example_draft_def
    by (simp add: example_fields contributors_schema_Some contributors_check_empty str_empty)
  from empty_contributors_rejected [OF 1, of is_https] 2 show ?thesis by simp
qed

text \<open>
  Claim C10. Two validated inputs that agree on every field other than \<open>workStartDate\<close>
  and \<open>workEndDate\<close> give the same result of \<open>onSubmit\<close>, whatever the formatter and the
  badges.
\<close>

theorem onSubmit_ignores_work_dates:
  assumes "title v1 = title v2" "description v1 = description v2" "link v1 = link v2"
    "cardImage v1 = cardImage v2" "logo v1 = logo v2" "banner v1 = banner v2"
    "tags v1 = tags v2" "projectDates v1 = projectDates v2"
    "contributors v1 = contributors v2" "acceptTerms v1 = acceptTerms v2"
    "confirmContributorsPermission v1 = confirmContributorsPermission v2"
  shows "onSubmit formatHypercertData badges v1 = onSubmit formatHypercertData badges v2"
  using assms by (simp add: onSubmit_def metadata_argument_def)

text \<open>The theorem at the validated example and at the same values with other work dates.\<close>

theorem onSubmit_ignores_work_dates_witness:
  "workStartDate example_values \<noteq> workStartDate other_work_dates_values
   \<and> workEndDate example_values \<noteq> workEndDate other_work_dates_values
   \<and> onSubmit (\<lambda>argument. argument) [str ''Edge Esmeralda'', str ''Edge City''] example_values
     = onSubmit (\<lambda>argument. argument) [str ''Edge Esmeralda'', str ''Edge City'']
         other_work_dates_values"
  using onSubmit_ignores_work_dates [of example_values other_work_dates_values
      "\<lambda>argument. argument" "[str ''Edge Esmeralda'', str ''Edge City'']"]
  by (simp add: example_values_def other_work_dates_values_def)

end
